theory Spec2Isabelle
  imports Main "HOL-Library.AList"
begin

section \<open>Text\<close>

text \<open>
  A JavaScript string is a sequence of UTF-16 code units. The model keeps the code
  units as natural numbers, so that the Hebrew letters of the lead-in pattern, the
  bullet glyph U+2022 and the Unicode white space that \<^verbatim>\<open>trim\<close> and \<^verbatim>\<open>\s\<close> know
  are what they are in the program. \<open>str\<close> embeds an ASCII literal.
\<close>

type_synonym jsstring = "nat list"

definition str :: "string \<Rightarrow> jsstring" where
  "str s = map of_char s"

text \<open>Line terminators (what \<^verbatim>\<open>.\<close> refuses and what \<^verbatim>\<open>^\<close>, \<^verbatim>\<open>$\<close> see under the m flag).\<close>

definition is_lt :: "nat \<Rightarrow> bool" where
  "is_lt c \<longleftrightarrow> c = 10 \<or> c = 13 \<or> c = 8232 \<or> c = 8233"

text \<open>White space of \<^verbatim>\<open>String.prototype.trim\<close> and of \<^verbatim>\<open>\s\<close>: WhiteSpace and LineTerminator.\<close>

definition is_ws :: "nat \<Rightarrow> bool" where
  "is_ws c \<longleftrightarrow> c = 9 \<or> c = 10 \<or> c = 11 \<or> c = 12 \<or> c = 13 \<or> c = 32 \<or> c = 160
     \<or> c = 5760 \<or> (8192 \<le> c \<and> c \<le> 8202) \<or> c = 8232 \<or> c = 8233 \<or> c = 8239
     \<or> c = 8287 \<or> c = 12288 \<or> c = 65279"

definition trim :: "jsstring \<Rightarrow> jsstring" where
  "trim s = rev (dropWhile is_ws (rev (dropWhile is_ws s)))"

text \<open>\<^verbatim>\<open>s.split('\n')\<close>: never empty, the empty string gives one empty piece.\<close>

fun split_nl :: "jsstring \<Rightarrow> jsstring list" where
  "split_nl [] = [[]]"
| "split_nl (c # cs) =
     (if c = 10 then [] # split_nl cs
      else (case split_nl cs of l # ls \<Rightarrow> (c # l) # ls | [] \<Rightarrow> [[c]]))"

text \<open>\<^verbatim>\<open>xs.join(sep)\<close>.\<close>

fun join :: "jsstring \<Rightarrow> jsstring list \<Rightarrow> jsstring" where
  "join sep [] = []"
| "join sep [x] = x"
| "join sep (x # y # ys) = x @ sep @ join sep (y # ys)"

text \<open>
  A number in a template literal. The numbers rendered here are the millisecond
  readings of \<^verbatim>\<open>Date.now()\<close>: non-negative integers far below 10^21, which print as
  their decimal digits.
\<close>

fun dec :: "nat \<Rightarrow> jsstring" where
  "dec n = (if n < 10 then [48 + n] else dec (n div 10) @ [48 + n mod 10])"

declare dec.simps [simp del]

text \<open>
  Case folding of the i flag (no u flag): a code unit is compared through its upper
  case, and a non-ASCII unit is never folded onto an ASCII one. Every pattern below
  is written with ASCII letters or with Hebrew letters, which have no case, so the
  folding of ASCII letters is all that a match can depend on.
\<close>

definition canon :: "nat \<Rightarrow> nat" where
  "canon c = (if 97 \<le> c \<and> c \<le> 122 then c - 32 else c)"

fun ci_prefix :: "jsstring \<Rightarrow> jsstring \<Rightarrow> bool" where
  "ci_prefix [] s = True"
| "ci_prefix (p # ps) [] = False"
| "ci_prefix (p # ps) (c # cs) = (canon p = canon c \<and> ci_prefix ps cs)"

fun ci_contains :: "jsstring \<Rightarrow> jsstring \<Rightarrow> bool" where
  "ci_contains p [] = ci_prefix p []"
| "ci_contains p (c # cs) = (ci_prefix p (c # cs) \<or> ci_contains p cs)"

section \<open>Cleaning the model's answers\<close>

text \<open>
  \<^verbatim>\<open>cleanedText.replace(/^#+\s.*$/gm, '')\<close>, as the scan the pattern performs. A match
  starts at the beginning of a line, takes every \<^verbatim>\<open>#\<close> there, needs one white-space
  unit after them (a line terminator is one) and then runs to the end of that line.
  The scan is left to right with four states: at the beginning of a line, inside a
  line, after \<open>n\<close> hashes that began a line, and inside a match. Hashes followed by
  anything but white space are no match and are kept.
\<close>

datatype hstate = Bol | Mid | Hashes nat | InHeader

fun strip_headers :: "hstate \<Rightarrow> jsstring \<Rightarrow> jsstring" where
  "strip_headers (Hashes n) [] = replicate n 35"
| "strip_headers Bol [] = []"
| "strip_headers Mid [] = []"
| "strip_headers InHeader [] = []"
| "strip_headers Bol (c # cs) =
     (if c = 35 then strip_headers (Hashes 1) cs
      else c # strip_headers (if is_lt c then Bol else Mid) cs)"
| "strip_headers Mid (c # cs) = c # strip_headers (if is_lt c then Bol else Mid) cs"
| "strip_headers (Hashes n) (c # cs) =
     (if c = 35 then strip_headers (Hashes (Suc n)) cs
      else if is_ws c then strip_headers InHeader cs
      else replicate n 35 @ c # strip_headers Mid cs)"
| "strip_headers InHeader (c # cs) =
     (if is_lt c then c # strip_headers Bol cs else strip_headers InHeader cs)"

text \<open>
  The lead-in patterns \<^verbatim>\<open>/Here is the.*:\s*/i\<close>, \<^verbatim>\<open>/Here's an.*:\s*/i\<close> and the Hebrew
  \<^verbatim>\<open>/<lhln>.*:/i\<close> share one shape: a literal, then \<^verbatim>\<open>.*:\<close>, then white space or
  not. \<^verbatim>\<open>.*\<close> is greedy and stays on the line, so the match ends at the last colon of
  the line the literal is on, and there is none when that rest of the line has no
  colon. \<^verbatim>\<open>\s*\<close> then takes all the white space that follows, line terminators too.
\<close>

record intro_pattern =
  literal :: jsstring
  eats_space :: bool

text \<open>What is left of \<open>s\<close> behind a match that starts at its first unit, if there is one.\<close>

definition match_intro_at :: "intro_pattern \<Rightarrow> jsstring \<Rightarrow> jsstring option" where
  "match_intro_at p s =
     (if ci_prefix (literal p) s then
        let rest = drop (length (literal p)) s;
            line = takeWhile (\<lambda>c. \<not> is_lt c) rest;
            beyond = dropWhile (\<lambda>c. \<not> is_lt c) rest
        in if 58 \<in> set line then
             let after = rev (takeWhile (\<lambda>c. c \<noteq> 58) (rev line)) @ beyond
             in Some (if eats_space p then dropWhile is_ws after else after)
           else None
      else None)"

text \<open>\<^verbatim>\<open>text.replace(pattern, '')\<close> without the g flag: the leftmost match goes.\<close>

fun remove_intro :: "intro_pattern \<Rightarrow> jsstring \<Rightarrow> jsstring" where
  "remove_intro p [] = []"
| "remove_intro p (c # cs) =
     (case match_intro_at p (c # cs) of
        Some r \<Rightarrow> r
      | None \<Rightarrow> c # remove_intro p cs)"

definition introsToRemove :: "intro_pattern list" where
  "introsToRemove =
     [\<lparr>literal = str ''Here is the'', eats_space = True\<rparr>,
      \<lparr>literal = str ''Here's an'', eats_space = True\<rparr>,
      \<lparr>literal = [1500, 1492, 1500, 1503], eats_space = False\<rparr>]"

definition cleanAiOutput :: "jsstring \<Rightarrow> jsstring" where
  "cleanAiOutput text =
     (if text = [] then []
      else
        let cleanedText = trim text;
            cleanedText = strip_headers Bol cleanedText;
            cleanedText = fold remove_intro introsToRemove cleanedText
        in trim cleanedText)"

text \<open>\<^verbatim>\<open>line.replace(/^-|^\*/, '\<bullet>')\<close>: a first unit \<^verbatim>\<open>-\<close> or \<^verbatim>\<open>*\<close> becomes U+2022.\<close>

definition bullet :: "jsstring \<Rightarrow> jsstring" where
  "bullet line =
     (case line of
        [] \<Rightarrow> []
      | c # cs \<Rightarrow> if c = 45 \<or> c = 42 then 8226 # cs else c # cs)"

text \<open>
  The features list of \<^verbatim>\<open>generateAllContent\<close>: the text is split at the newlines,
  every line is cleaned on its own, trimmed, given its bullet and trimmed again, the
  empty lines are dropped and the rest is joined by newlines.
\<close>

definition feature_lines_all :: "jsstring \<Rightarrow> jsstring list" where
  "feature_lines_all features =
     filter (\<lambda>l. l \<noteq> [])
       (map (\<lambda>line. trim (bullet (trim (cleanAiOutput line)))) (split_nl features))"

definition clean_features_all :: "jsstring \<Rightarrow> jsstring" where
  "clean_features_all features = join [10] (feature_lines_all features)"

text \<open>The features list of \<^verbatim>\<open>regenerateSectionContent\<close>, on the cleaned answer.\<close>

definition feature_lines_one :: "jsstring \<Rightarrow> jsstring list" where
  "feature_lines_one content =
     filter (\<lambda>l. l \<noteq> [])
       (map (\<lambda>line. trim (bullet (trim line))) (split_nl content))"

definition clean_features_one :: "jsstring \<Rightarrow> jsstring" where
  "clean_features_one content = join [10] (feature_lines_one content)"

section \<open>Types of the application\<close>

datatype Tone = Formal | Casual | Persuasive
datatype Length = Auto | Short | Medium | Long
datatype Emojis = Yes | No
datatype Language = English | Hebrew
datatype OutputLanguage = OutAuto | Out Language
datatype ScrapeMode = ModeAuto | ModeHtml | ModeText
datatype Section = Photo | Header | Description | Features | Reviews

record CustomizationOptions =
  tone :: Tone
  length_opt :: Length
  emojis :: Emojis

text \<open>\<^verbatim>\<open>price\<close>, \<^verbatim>\<open>language\<close> and \<^verbatim>\<open>reviews\<close> are optional fields.\<close>

record ScrapedProductData =
  url :: jsstring
  image_url :: jsstring
  title :: jsstring
  description :: jsstring
  features :: "jsstring list"
  price :: "jsstring option"
  language :: "jsstring option"
  reviews :: "jsstring list option"

definition language_name :: "Language \<Rightarrow> jsstring" where
  "language_name l = (case l of English \<Rightarrow> str ''English'' | Hebrew \<Rightarrow> str ''Hebrew'')"

definition output_language_name :: "OutputLanguage \<Rightarrow> jsstring" where
  "output_language_name l = (case l of OutAuto \<Rightarrow> str ''auto'' | Out x \<Rightarrow> language_name x)"

definition section_name :: "Section \<Rightarrow> jsstring" where
  "section_name s =
     (case s of Photo \<Rightarrow> str ''photo'' | Header \<Rightarrow> str ''header''
      | Description \<Rightarrow> str ''description'' | Features \<Rightarrow> str ''features''
      | Reviews \<Rightarrow> str ''reviews'')"

text \<open>
  Values as \<^verbatim>\<open>JSON.parse\<close> builds them and as the content object holds them. An
  object is the list of its own properties, every key once, in insertion order; an
  array is the object of its indices. Of a number only "is it zero" is ever asked.
\<close>

datatype json = JNull | JBool bool | JNum int | JStr jsstring | JObj "(jsstring \<times> json) list"

type_synonym jsobject = "(jsstring \<times> json) list"

definition truthy :: "json \<Rightarrow> bool" where
  "truthy v =
     (case v of JNull \<Rightarrow> False | JBool b \<Rightarrow> b | JNum n \<Rightarrow> n \<noteq> 0
      | JStr s \<Rightarrow> s \<noteq> [] | JObj kvs \<Rightarrow> True)"

text \<open>A thrown \<^verbatim>\<open>Error\<close> is its message.\<close>

datatype js_error = Error (message: jsstring)

text \<open>
  The message of a \<^verbatim>\<open>TypeError\<close> raised by the engine (a property of \<^verbatim>\<open>null\<close>, a
  method a value does not have, a property assigned to a primitive in a module) is
  worded by the engine; the model writes it as its name.
\<close>

definition type_error :: js_error where
  "type_error = Error (str ''TypeError'')"

section \<open>The AI gateway\<close>

text \<open>
  One call of \<^verbatim>\<open>ai.models.generateContent\<close>: the model asked, the prompt, and whether
  the JSON response schema (header, description, features, reviews, none of them
  required) goes with it. The answer is the text of the response, or the promise
  is rejected; a response without text fails at \<^verbatim>\<open>response.text.trim()\<close>, which every
  caller has in the same place as the call, and counts as rejected here.
\<close>

record gateway_request =
  model :: jsstring
  prompt :: jsstring
  json_schema :: bool

datatype gateway_result = Rejected js_error | Response jsstring

text \<open>
  A service function up to its first await: it has finished with a value and no
  call, or it has issued one call. The log lines are those it handed to \<^verbatim>\<open>addLog\<close>.
  A handler that awaits a function which has finished is resumed here at once. The
  program resumes it when the code that is running has ended; every setter in the
  rest of a handler takes a function of the previous value, so this changes the
  order of log lines and nothing else.
\<close>

datatype 'a started = Finished "jsstring list" 'a | Awaiting "jsstring list" gateway_request

section \<open>translateContent\<close>

definition translate_prompt :: "jsstring \<Rightarrow> Language \<Rightarrow> jsstring \<Rightarrow> jsstring" where
  "translate_prompt textToTranslate targetLanguage sectionContext =
     [10] @ str ''    Translate the following text into '' @ language_name targetLanguage @ str ''.'' @ [10] @ str ''    The text is '' @ sectionContext @ str ''.'' @ [10] @ str ''    Maintain the original tone, formatting (like bullet points), and meaning.'' @ [10] @ str ''    IMPORTANT: Provide ONLY the translated text. Do not add any introductory phrases like '' @ [34] @ str ''Here is the translation:'' @ [34] @ str ''.'' @ [10, 10] @ str ''    --- TEXT TO TRANSLATE ---'' @ [10] @ str ''    '' @ textToTranslate @ [10] @ str ''  ''"

definition translateContent_start ::
  "jsstring \<Rightarrow> Language \<Rightarrow> jsstring \<Rightarrow> jsstring started" where
  "translateContent_start textToTranslate targetLanguage sectionContext =
     (if textToTranslate = [] then Finished [] []
      else Awaiting
        [str ''[TRANSLATE] Sending translation prompt for '' @ sectionContext @ str '' to '' @ language_name targetLanguage @ str ''...'']
        \<lparr>model = str ''gemini-2.5-flash'',
         prompt = translate_prompt textToTranslate targetLanguage sectionContext,
         json_schema = False\<rparr>)"

definition translateContent_finish ::
  "jsstring \<Rightarrow> gateway_result \<Rightarrow> jsstring list \<times> (js_error + jsstring)" where
  "translateContent_finish sectionContext r =
     (case r of
        Response t \<Rightarrow>
          let translatedText = cleanAiOutput (trim t)
          in ([str ''[TRANSLATE] Received translated text:'' @ [10] @ translatedText], Inr translatedText)
      | Rejected e \<Rightarrow>
          let errorMessage = message e
          in ([str ''[TRANSLATE-ERROR] Failed to translate: '' @ errorMessage],
              Inl (Error (str ''AI failed to translate the content for '' @ sectionContext @ str ''.''))))"

section \<open>generatePrompt\<close>

definition has_reviews :: "ScrapedProductData \<Rightarrow> bool" where
  "has_reviews product = (case reviews product of None \<Rightarrow> False | Some r \<Rightarrow> r \<noteq> [])"

definition lengthMap :: "Length \<Rightarrow> jsstring" where
  "lengthMap len =
     (case len of Short \<Rightarrow> str ''50-150 words'' | Medium \<Rightarrow> str ''150-300 words''
      | Long \<Rightarrow> str ''300-500 words'' | Auto \<Rightarrow> str ''undefined'')"

definition description_prompt :: "CustomizationOptions \<Rightarrow> Language \<Rightarrow> jsstring" where
  "description_prompt options lang =
     (let len = length_opt options;
          lengthInstruction =
            (if len = Auto then str ''be an optimal length based on the provided product data. Analyze the detail level of the source description and features to decide if a short, medium, or long description is most appropriate to be comprehensive without being repetitive.''
             else str ''be approximately '' @ lengthMap len @ str '' long'');
          emojiInstruction =
            (if emojis options = Yes then str ''use a few relevant emojis sparingly'' else str ''not use any emojis'');
          langContext = (if lang = Hebrew then str '' in Hebrew'' else []);
          hebrewStyleGuideline =
            (if lang = Hebrew then str '' IMPORTANT FOR HEBREW: Write in a natural, descriptive style. Avoid addressing the reader directly in the second person (using words like 'you', 'your', '' @ [39, 1488, 1514, 1501, 39] @ str '', '' @ [39, 1500, 1499, 1501, 39] @ str ''). Instead, describe the product and its benefits from a more neutral perspective, as if presenting facts.''
             else []);
          toneInstruction =
            (case tone options of
               Formal \<Rightarrow> str ''in a strict, formal, and objective'' @ langContext @ str '' tone. Avoid all superlatives (like 'amazing', 'breakthrough'), marketing jargon, and exaggerated claims. Focus purely on the product's specifications and practical applications in a direct, factual manner, similar to a technical sheet but in prose.''
             | Casual \<Rightarrow> str ''in a friendly, relaxed, and conversational'' @ langContext @ str '' tone. While being approachable, ground the description in facts about the product's features and benefits. Avoid excessive hype.''
             | Persuasive \<Rightarrow> str ''in an engaging and persuasive'' @ langContext @ str '' tone. Focus on the product's key benefits and how it solves the customer's problems. Use compelling language to create desire, but base all claims on the provided product data. Tell a story about the value of the product.'')
      in str ''- An engaging product description in '' @ language_name lang @ str ''. It should be '' @ toneInstruction @ str '', '' @ lengthInstruction @ str '', and '' @ emojiInstruction @ str ''.'' @ hebrewStyleGuideline @ [10])"

definition section_prompt :: "CustomizationOptions \<Rightarrow> Section \<times> Language \<Rightarrow> jsstring" where
  "section_prompt options sl =
     (case sl of (section, lang) \<Rightarrow>
        (case section of
           Photo \<Rightarrow> []
         | Header \<Rightarrow> str ''- A catchy, SEO-friendly header in '' @ language_name lang @ str ''.'' @ [10]
         | Description \<Rightarrow> description_prompt options lang
         | Features \<Rightarrow> str ''- A clean, bulleted list of the product's key features and specifications in '' @ language_name lang @ str ''. Format as a single string with each feature on a new line starting with a bullet point (e.g., '' @ [39, 8226] @ str '' Feature 1'' @ [92] @ str ''n'' @ [8226] @ str '' Feature 2').'' @ [10]
         | Reviews \<Rightarrow> str ''- A summary of the main points from customer reviews in '' @ language_name lang @ str ''. If there are both positive and negative points, divide them clearly. Format it with subheadings like '' @ [34] @ str ''Positive Feedback'' @ [34] @ str '' and '' @ [34] @ str ''Areas for Improvement'' @ [34] @ str ''. If reviews are overwhelmingly one-sided, a single summary is fine. Format as a single string with newlines for structure.'' @ [10]))"

definition generatePrompt ::
  "ScrapedProductData \<Rightarrow> CustomizationOptions \<Rightarrow> (Section \<times> Language) list \<Rightarrow> jsstring" where
  "generatePrompt product options sections =
     str ''Analyze the following product data:'' @ [10]
     @ str ''- Title: '' @ title product @ [10]
     @ str ''- Description: '' @ description product @ [10]
     @ str ''- Features: '' @ join (str '', '') (features product) @ [10]
     @ (if has_reviews product
        then str ''- Customer Reviews: '' @ join (str ''; '') (the (reviews product)) @ [10]
        else [])
     @ [10] @ str ''Based on this data, generate the following sections for an eCommerce blog post.'' @ [10] @ str ''IMPORTANT: For all sections, provide ONLY the raw text content requested. Do NOT add any extra headers, titles (like '### Header'), markdown formatting, or introductory sentences (like 'Here is the description:'). The output must be ready to be directly copied and pasted.'' @ [10]
     @ concat (map (section_prompt options) sections)"

section \<open>generateAllContent\<close>

definition sectionsToGenerate :: "ScrapedProductData \<Rightarrow> Language \<Rightarrow> (Section \<times> Language) list" where
  "sectionsToGenerate product lang =
     [(Header, lang), (Description, lang), (Features, lang)]
     @ (if has_reviews product then [(Reviews, lang)] else [])"

definition generateAllContent_start ::
  "ScrapedProductData \<Rightarrow> CustomizationOptions \<Rightarrow> Language \<Rightarrow> jsstring list \<times> gateway_request" where
  "generateAllContent_start product options lang =
     (let prompt = generatePrompt product options (sectionsToGenerate product lang)
      in ([str ''[GENERATE-ALL] Sending prompt in '' @ language_name lang @ str ''...'' @ [10] @ str ''Prompt: '' @ prompt],
          \<lparr>model = str ''gemini-2.5-flash'', prompt = prompt, json_schema = True\<rparr>))"

text \<open>
  \<^verbatim>\<open>x || ''\<close> handed to a string operation (\<^verbatim>\<open>cleanAiOutput\<close>, \<^verbatim>\<open>split\<close>): an absent or
  falsy \<open>x\<close> is the empty string, a non-empty string is itself, and any other truthy
  value has no \<^verbatim>\<open>trim\<close> or \<^verbatim>\<open>split\<close>, which throws.
\<close>

definition text_or_empty :: "json option \<Rightarrow> js_error + jsstring" where
  "text_or_empty x =
     (case x of
        None \<Rightarrow> Inr []
      | Some v \<Rightarrow>
          if \<not> truthy v then Inr []
          else (case v of JStr s \<Rightarrow> Inr s | _ \<Rightarrow> Inl type_error))"

text \<open>
  The body of the \<^verbatim>\<open>try\<close>: parse, then overwrite \<^verbatim>\<open>header\<close>, \<^verbatim>\<open>description\<close> and
  \<^verbatim>\<open>features\<close> with their cleaned texts, and \<^verbatim>\<open>reviews\<close> when it is truthy. The parsed
  value is returned as it is otherwise: whatever further properties it has stay.
  Properties can be read and written on an object only.
\<close>

definition parse_and_clean :: "(jsstring \<Rightarrow> js_error + json) \<Rightarrow> jsstring \<Rightarrow> js_error + jsobject" where
  "parse_and_clean JSON_parse text =
     (case JSON_parse text of
        Inl e \<Rightarrow> Inl e
      | Inr (JObj parsed) \<Rightarrow>
          (case text_or_empty (map_of parsed (str ''header'')) of
             Inl e \<Rightarrow> Inl e
           | Inr h \<Rightarrow>
          let parsed = AList.update (str ''header'') (JStr (cleanAiOutput h)) parsed in
          (case text_or_empty (map_of parsed (str ''description'')) of
             Inl e \<Rightarrow> Inl e
           | Inr d \<Rightarrow>
          let parsed = AList.update (str ''description'') (JStr (cleanAiOutput d)) parsed in
          (case text_or_empty (map_of parsed (str ''features'')) of
             Inl e \<Rightarrow> Inl e
           | Inr f \<Rightarrow>
          let parsed = AList.update (str ''features'') (JStr (clean_features_all f)) parsed in
          (case map_of parsed (str ''reviews'') of
             None \<Rightarrow> Inr parsed
           | Some v \<Rightarrow>
               if \<not> truthy v then Inr parsed
               else (case v of
                       JStr r \<Rightarrow> Inr (AList.update (str ''reviews'') (JStr (cleanAiOutput r)) parsed)
                     | _ \<Rightarrow> Inl type_error)))))
      | Inr _ \<Rightarrow> Inl type_error)"

definition generateAllContent_finish ::
  "(jsstring \<Rightarrow> js_error + json) \<Rightarrow> gateway_result \<Rightarrow> jsstring list \<times> (js_error + jsobject)" where
  "generateAllContent_finish JSON_parse r =
     (case r of
        Rejected e \<Rightarrow> ([], Inl e)
      | Response t \<Rightarrow>
          let text = trim t;
              raw = str ''[GENERATE-ALL] Received raw JSON response:'' @ [10] @ text
          in (case parse_and_clean JSON_parse text of
                Inr parsed \<Rightarrow>
                  ([raw, str ''[GENERATE-ALL] Successfully parsed and cleaned JSON response.''], Inr parsed)
              | Inl e \<Rightarrow>
                  let errorMessage = message e
                  in ([raw, str ''[GENERATE-ALL-ERROR] Failed to parse Gemini JSON response: '' @ errorMessage],
                      Inl (Error (str ''AI failed to generate a valid response. Check the debug log for details.'')))))"

section \<open>regenerateSectionContent\<close>

text \<open>\<open>now_ms\<close> is what \<^verbatim>\<open>Date.now()\<close> reads when the photo branch runs.\<close>

definition regenerateSectionContent_start ::
  "nat \<Rightarrow> Section \<Rightarrow> ScrapedProductData \<Rightarrow> CustomizationOptions \<Rightarrow> Language \<Rightarrow> jsstring started" where
  "regenerateSectionContent_start now_ms section product options lang =
     (if section = Photo then
        let newUrl = image_url product @ str ''&t='' @ dec now_ms
        in Finished [str ''[REGENERATE-PHOTO] Returning new URL: '' @ newUrl] newUrl
      else
        let prompt = generatePrompt product options [(section, lang)]
        in Awaiting
             [str ''[REGENERATE-SECTION] Sending prompt for section '' @ [34] @ section_name section @ [34] @ str '' in '' @ language_name lang @ str ''...'' @ [10] @ str ''Prompt: '' @ prompt]
             \<lparr>model = str ''gemini-2.5-flash'', prompt = prompt, json_schema = False\<rparr>)"

definition regenerateSectionContent_finish ::
  "Section \<Rightarrow> gateway_result \<Rightarrow> jsstring list \<times> (js_error + jsstring)" where
  "regenerateSectionContent_finish section r =
     (case r of
        Rejected e \<Rightarrow> ([], Inl e)
      | Response t \<Rightarrow>
          let content = cleanAiOutput (trim t);
              received = str ''[REGENERATE-SECTION] Received and cleaned raw response for section '' @ [34] @ section_name section @ [34] @ str '':'' @ [10] @ content
          in if section = Features
             then ([received, str ''[REGENERATE-SECTION] Cleaned up features list.''], Inr (clean_features_one content))
             else ([received], Inr content))"

section \<open>The state of the application\<close>

text \<open>
  The \<^verbatim>\<open>useState\<close> cells of \<^verbatim>\<open>App\<close>. The content object is kept as the object it is
  at run time: \<^verbatim>\<open>generateAllContent\<close> returns what \<^verbatim>\<open>JSON.parse\<close> built. The section
  languages are the partial map of the source; \<^verbatim>\<open>photo\<close> has no entry.
\<close>

record app_state =
  userInput :: jsstring
  isLoading :: bool
  error :: "jsstring option"
  productData :: "ScrapedProductData option"
  generatedContent :: "jsobject option"
  regeneratingSections :: "Section set"
  toastMessage :: jsstring
  logs :: "jsstring list"
  showDebugLog :: bool
  options :: CustomizationOptions
  outputLanguage :: OutputLanguage
  lastUsedOptions :: "CustomizationOptions option"
  lastUsedOutputLanguage :: "OutputLanguage option"
  sectionLanguages :: "Section \<rightharpoonup> Language"
  originLanguage :: Language

definition defaultOptions :: CustomizationOptions where
  "defaultOptions = \<lparr>tone = Formal, length_opt = Auto, emojis = No\<rparr>"

definition initialSectionLanguages :: "Section \<rightharpoonup> Language" where
  "initialSectionLanguages =
     [Header \<mapsto> English, Description \<mapsto> English, Features \<mapsto> English, Reviews \<mapsto> English]"

definition initial_state :: app_state where
  "initial_state =
     \<lparr>userInput = [], isLoading = False, error = None, productData = None,
      generatedContent = None, regeneratingSections = {}, toastMessage = [], logs = [],
      showDebugLog = False, options = defaultOptions, outputLanguage = OutAuto,
      lastUsedOptions = None, lastUsedOutputLanguage = None,
      sectionLanguages = initialSectionLanguages, originLanguage = English\<rparr>"

text \<open>
  What a handler reads from outside the state: the clock, as the string of
  \<^verbatim>\<open>new Date().toLocaleTimeString()\<close> and as the milliseconds of \<^verbatim>\<open>Date.now()\<close> (one
  reading for one synchronous run of a handler), and the two platform functions
  \<^verbatim>\<open>JSON.parse\<close> (an error when it throws) and \<^verbatim>\<open>JSON.stringify(scrapedData, null, 2)\<close>.
\<close>

record env =
  timeString :: jsstring
  dateNow :: nat
  JSON_parse :: "jsstring \<Rightarrow> js_error + json"
  JSON_stringify :: "ScrapedProductData \<Rightarrow> jsstring"

definition addLog :: "env \<Rightarrow> jsstring \<Rightarrow> app_state \<Rightarrow> app_state" where
  "addLog e log st = st\<lparr>logs := logs st @ [str ''['' @ timeString e @ str ''] '' @ log]\<rparr>"

definition addLogs :: "env \<Rightarrow> jsstring list \<Rightarrow> app_state \<Rightarrow> app_state" where
  "addLogs e ls st = fold (addLog e) ls st"

text \<open>
  What a handler sends out and awaits. The call is the input handed to one of the
  three extraction functions (\<^verbatim>\<open>scrapeUrl\<close>, \<^verbatim>\<open>parseHtmlContent\<close>, \<^verbatim>\<open>parseTextContent\<close>,
  chosen by the mode) with its source URL, or a call of the gateway by the
  generation service. The continuation is the rest of the handler, with the values
  it keeps from its closure.
\<close>

datatype call = Extract ScrapeMode jsstring jsstring | Gateway gateway_request

datatype continuation =
    Scraped CustomizationOptions OutputLanguage
  | GeneratedAll CustomizationOptions OutputLanguage ScrapedProductData
  | Regenerated Section
  | Translated Section Language

type_synonym awaited = "continuation \<times> call"

section \<open>detectInputType\<close>

definition strip_prefix :: "jsstring \<Rightarrow> jsstring \<Rightarrow> jsstring option" where
  "strip_prefix p s = (if take (length p) s = p then Some (drop (length p) s) else None)"

text \<open>\<^verbatim>\<open>/^https?:\/\/\S+$/\<close>: no flag, so \<^verbatim>\<open>^\<close> and \<^verbatim>\<open>$\<close> are the two ends of the string.\<close>

definition is_url :: "jsstring \<Rightarrow> bool" where
  "is_url s =
     (case (case strip_prefix (str ''https://'') s of
              Some r \<Rightarrow> Some r
            | None \<Rightarrow> strip_prefix (str ''http://'') s) of
        None \<Rightarrow> False
      | Some r \<Rightarrow> r \<noteq> [] \<and> (\<forall>c \<in> set r. \<not> is_ws c))"

definition detectInputType :: "jsstring \<Rightarrow> ScrapeMode" where
  "detectInputType input =
     (let trimmedInput = trim input;
          isHtml = (ci_contains (str ''<html'') trimmedInput
                    \<or> ci_contains (str ''<!DOCTYPE'') trimmedInput)
      in if isHtml then ModeHtml
         else if is_url trimmedInput then ModeAuto
         else ModeText)"

definition mode_name :: "ScrapeMode \<Rightarrow> jsstring" where
  "mode_name m = (case m of ModeAuto \<Rightarrow> str ''auto'' | ModeHtml \<Rightarrow> str ''html'' | ModeText \<Rightarrow> str ''text'')"

section \<open>handleGenerate and processScrapedData\<close>

text \<open>
  An asynchronous handler is cut at its awaits. Each piece runs to its end without
  interruption and reads the state that the pieces run before it have left. The
  values a piece takes from the closure of the handler (\<^verbatim>\<open>options\<close> and
  \<^verbatim>\<open>outputLanguage\<close> in \<^verbatim>\<open>processScrapedData\<close>, the section and the target language
  in the section handlers) are arguments of the piece.
\<close>

text \<open>The \<^verbatim>\<open>catch\<close> and \<^verbatim>\<open>finally\<close> of \<^verbatim>\<open>handleGenerate\<close>.\<close>

definition handleGenerate_catch :: "env \<Rightarrow> js_error \<Rightarrow> app_state \<Rightarrow> app_state" where
  "handleGenerate_catch e err st =
     (let errorMessage =
            (if message err = [] then str ''An unexpected error occurred.'' else message err);
          st = st\<lparr>error := Some errorMessage\<rparr>;
          st = addLog e (str ''[ERROR] Generation failed: '' @ errorMessage) st
      in st\<lparr>isLoading := False\<rparr>)"

text \<open>
  Up to the await of the extraction. \<^verbatim>\<open>options\<close> and \<^verbatim>\<open>outputLanguage\<close> are those of
  the render the handler was made in, and \<^verbatim>\<open>processScrapedData\<close> will use them.
\<close>

definition handleGenerate :: "env \<Rightarrow> app_state \<Rightarrow> app_state \<times> awaited list" where
  "handleGenerate e st =
     (if trim (userInput st) = [] then (st, [])
      else
        let input = userInput st;
            opts = options st;
            outLang = outputLanguage st;
            st = st\<lparr>logs := []\<rparr>;
            st = addLog e (str ''[START] Starting new generation process...'') st;
            st = st\<lparr>isLoading := True\<rparr>;
            st = st\<lparr>error := None\<rparr>;
            st = st\<lparr>generatedContent := None\<rparr>;
            st = st\<lparr>productData := None\<rparr>;
            st = st\<lparr>lastUsedOptions := None\<rparr>;
            st = st\<lparr>lastUsedOutputLanguage := None\<rparr>;
            st = st\<lparr>originLanguage := English\<rparr>;
            inputType = detectInputType input;
            st = addLog e (str ''[SYSTEM] Detected input type: '' @ mode_name inputType) st;
            sourceUrl = (if inputType = ModeAuto then input else str ''manual-input'')
        in (st, [(Scraped opts outLang, Extract inputType input sourceUrl)]))"

text \<open>
  \<^verbatim>\<open>processScrapedData\<close> up to the await of \<^verbatim>\<open>generateAllContent\<close>; \<open>opts\<close> and
  \<open>outLang\<close> are the \<^verbatim>\<open>options\<close> and \<^verbatim>\<open>outputLanguage\<close> of its closure.
\<close>

definition processScrapedData :: 
  "env \<Rightarrow> CustomizationOptions \<Rightarrow> OutputLanguage \<Rightarrow> ScrapedProductData \<Rightarrow> app_state
     \<Rightarrow> app_state \<times> awaited list" where
  "processScrapedData e opts outLang scrapedData st =
     (let st = st\<lparr>productData := Some scrapedData\<rparr>;
          initialLanguage = (if language scrapedData = Some (str ''he'') then Hebrew else English);
          st = addLog e (str ''[SYSTEM] Detected origin language: ''
                         @ language_name initialLanguage @ str ''.'') st;
          st = st\<lparr>originLanguage := initialLanguage\<rparr>;
          generationLanguage = (case outLang of OutAuto \<Rightarrow> initialLanguage | Out l \<Rightarrow> l);
          st = addLog e (str ''[SYSTEM] Setting initial generation language to: ''
                         @ language_name generationLanguage @ str ''.'') st;
          st = st\<lparr>sectionLanguages :=
                    [Header \<mapsto> generationLanguage, Description \<mapsto> generationLanguage,
                     Features \<mapsto> generationLanguage, Reviews \<mapsto> generationLanguage]\<rparr>
      in (case generateAllContent_start scrapedData opts generationLanguage of
            (ls, req) \<Rightarrow>
              (addLogs e ls st, [(GeneratedAll opts outLang scrapedData, Gateway req)])))"

text \<open>
  The extraction has settled: \<open>ls\<close> are the lines it logged, \<open>r\<close> the record it
  returned or the error it threw.
\<close>

definition handleGenerate_scraped ::
  "env \<Rightarrow> CustomizationOptions \<Rightarrow> OutputLanguage \<Rightarrow> jsstring list
     \<Rightarrow> js_error + ScrapedProductData \<Rightarrow> app_state \<Rightarrow> app_state \<times> awaited list" where
  "handleGenerate_scraped e opts outLang ls r st =
     (let st = addLogs e ls st
      in case r of
           Inl err \<Rightarrow> (handleGenerate_catch e err st, [])
         | Inr scrapedData \<Rightarrow>
             processScrapedData e opts outLang scrapedData
               (addLog e (str ''[SYSTEM] Scraped and processed data:'' @ [10]
                          @ JSON_stringify e scrapedData) st))"

text \<open>The call of \<^verbatim>\<open>generateAllContent\<close> has settled.\<close>

definition handleGenerate_generated ::
  "env \<Rightarrow> CustomizationOptions \<Rightarrow> OutputLanguage \<Rightarrow> ScrapedProductData \<Rightarrow> gateway_result
     \<Rightarrow> app_state \<Rightarrow> app_state" where
  "handleGenerate_generated e opts outLang scrapedData r st =
     (case generateAllContent_finish (JSON_parse e) r of
        (ls, Inl err) \<Rightarrow> handleGenerate_catch e err (addLogs e ls st)
      | (ls, Inr content) \<Rightarrow>
          let st = addLogs e ls st;
              st = st\<lparr>generatedContent :=
                        Some (AList.update (str ''photo'') (JStr (image_url scrapedData)) content)\<rparr>;
              st = st\<lparr>lastUsedOptions := Some opts\<rparr>;
              st = st\<lparr>lastUsedOutputLanguage := Some outLang\<rparr>;
              st = addLog e (str ''[SUCCESS] Generation process completed successfully.'') st
          in st\<lparr>isLoading := False\<rparr>)"

section \<open>handleClear, handleReset, handleUpdateContent\<close>

definition handleClear :: "env \<Rightarrow> app_state \<Rightarrow> app_state" where
  "handleClear e st =
     (let st = st\<lparr>userInput := []\<rparr>;
          st = st\<lparr>generatedContent := None\<rparr>;
          st = st\<lparr>productData := None\<rparr>;
          st = st\<lparr>error := None\<rparr>;
          st = st\<lparr>logs := []\<rparr>
      in addLog e (str ''[SYSTEM] Cleared input and all generated content.'') st)"

definition handleReset :: "env \<Rightarrow> app_state \<Rightarrow> app_state" where
  "handleReset e st =
     (let st = handleClear e st;
          st = st\<lparr>options := defaultOptions\<rparr>;
          st = st\<lparr>outputLanguage := OutAuto\<rparr>
      in addLog e (str ''[SYSTEM] Application state has been reset to defaults.'') st)"

text \<open>\<^verbatim>\<open>prev ? { ...prev, [section]: newContent } : null\<close>.\<close>

definition set_section :: "Section \<Rightarrow> jsstring \<Rightarrow> jsobject option \<Rightarrow> jsobject option" where
  "set_section section newContent prev =
     (case prev of
        None \<Rightarrow> None
      | Some c \<Rightarrow> Some (AList.update (section_name section) (JStr newContent) c))"

definition handleUpdateContent :: "Section \<Rightarrow> jsstring \<Rightarrow> app_state \<Rightarrow> app_state" where
  "handleUpdateContent section newContent st =
     st\<lparr>generatedContent := set_section section newContent (generatedContent st)\<rparr>"

section \<open>handleTranslateSection\<close>

definition sectionContextMap :: "Section \<rightharpoonup> jsstring" where
  "sectionContextMap =
     [Header \<mapsto> str ''a product header'',
      Description \<mapsto> str ''a product description'',
      Features \<mapsto> str ''a bulleted list of product features'',
      Reviews \<mapsto> str ''a summary of customer reviews'']"

definition sectionContext_of :: "Section \<Rightarrow> jsstring" where
  "sectionContext_of section =
     (case sectionContextMap section of Some c \<Rightarrow> c | None \<Rightarrow> str ''text'')"

text \<open>
  From the end of the awaited \<^verbatim>\<open>translateContent\<close> to the end of the handler: the rest
  of the \<^verbatim>\<open>try\<close>, or the \<^verbatim>\<open>catch\<close>, and the \<^verbatim>\<open>finally\<close>.
\<close>

definition handleTranslateSection_settle ::
  "env \<Rightarrow> Section \<Rightarrow> Language \<Rightarrow> js_error + jsstring \<Rightarrow> app_state \<Rightarrow> app_state" where
  "handleTranslateSection_settle e section targetLanguage r st =
     (let st =
            (case r of
               Inr newContent \<Rightarrow>
                 let st = st\<lparr>generatedContent := set_section section newContent (generatedContent st)\<rparr>;
                     st = st\<lparr>sectionLanguages := (sectionLanguages st)(section \<mapsto> targetLanguage)\<rparr>
                 in addLog e (str ''[SUCCESS] Section '' @ section_name section @ str '' translated.'') st
             | Inl err \<Rightarrow>
                 let errorMessage = str ''Failed to translate '' @ section_name section @ str '': ''
                                    @ message err
                 in addLog e (str ''[ERROR] '' @ errorMessage) st)
      in st\<lparr>regeneratingSections := regeneratingSections st - {section}\<rparr>)"

text \<open>
  The handler up to its await. The handler is a \<^verbatim>\<open>useCallback\<close> closure: \<^verbatim>\<open>productData\<close>,
  \<^verbatim>\<open>generatedContent\<close> and \<^verbatim>\<open>regeneratingSections\<close> in its body are the values of the render
  that made it, the state \<open>r\<close>, while \<^verbatim>\<open>addLog\<close> and the setters, which take a function of
  the previous value, work on the state of the moment, \<open>st\<close>. When the section holds
  no string the handler throws and ends at once; when the string is empty
  \<^verbatim>\<open>translateContent\<close> returns it without a call and the handler ends with it.
\<close>

definition handleTranslateSection ::
  "env \<Rightarrow> app_state \<Rightarrow> Section \<Rightarrow> Language \<Rightarrow> app_state \<Rightarrow> app_state \<times> awaited list" where
  "handleTranslateSection e r section targetLanguage st =
     (case (productData r, generatedContent r) of
        (Some product, Some content) \<Rightarrow>
          if section \<in> regeneratingSections r then (st, [])
          else
            let st = addLog e (str ''[START] Translating section: '' @ section_name section
                               @ str '' to '' @ language_name targetLanguage @ str ''...'') st;
                st = st\<lparr>regeneratingSections := insert section (regeneratingSections st)\<rparr>
            in (case map_of content (section_name section) of
                  Some (JStr contentToTranslate) \<Rightarrow>
                    (case translateContent_start contentToTranslate targetLanguage
                            (sectionContext_of section) of
                       Awaiting ls req \<Rightarrow>
                         (addLogs e ls st, [(Translated section targetLanguage, Gateway req)])
                     | Finished ls newContent \<Rightarrow>
                         (handleTranslateSection_settle e section targetLanguage (Inr newContent)
                            (addLogs e ls st), []))
                | _ \<Rightarrow>
                    (handleTranslateSection_settle e section targetLanguage
                       (Inl (Error (str ''No content to translate.''))) st, []))
      | _ \<Rightarrow> (st, []))"

text \<open>The call of the gateway made for the translation has settled.\<close>

definition handleTranslateSection_translated ::
  "env \<Rightarrow> Section \<Rightarrow> Language \<Rightarrow> gateway_result \<Rightarrow> app_state \<Rightarrow> app_state" where
  "handleTranslateSection_translated e section targetLanguage r st =
     (case translateContent_finish (sectionContext_of section) r of
        (ls, res) \<Rightarrow> handleTranslateSection_settle e section targetLanguage res (addLogs e ls st))"

section \<open>handleRegenerateSection\<close>

definition handleRegenerateSection_settle ::
  "env \<Rightarrow> Section \<Rightarrow> js_error + jsstring \<Rightarrow> app_state \<Rightarrow> app_state" where
  "handleRegenerateSection_settle e section r st =
     (let st =
            (case r of
               Inr newContent \<Rightarrow>
                 let st = st\<lparr>generatedContent := set_section section newContent (generatedContent st)\<rparr>
                 in addLog e (str ''[SUCCESS] Section '' @ section_name section @ str '' regenerated.'') st
             | Inl err \<Rightarrow>
                 let errorMessage = str ''Failed to regenerate '' @ section_name section @ str '': ''
                                    @ message err
                 in addLog e (str ''[ERROR] '' @ errorMessage) st)
      in st\<lparr>regeneratingSections := regeneratingSections st - {section}\<rparr>)"

text \<open>
  The handler up to its await. Its closure reads \<^verbatim>\<open>productData\<close>, \<^verbatim>\<open>regeneratingSections\<close>,
  \<^verbatim>\<open>sectionLanguages\<close> and \<^verbatim>\<open>options\<close> in the state \<open>r\<close> of the render that made it, and
  its updates work on the state of the moment, \<open>st\<close>.
\<close>

definition handleRegenerateSection ::
  "env \<Rightarrow> app_state \<Rightarrow> Section \<Rightarrow> app_state \<Rightarrow> app_state \<times> awaited list" where
  "handleRegenerateSection e r section st =
     (case productData r of
        None \<Rightarrow> (st, [])
      | Some product \<Rightarrow>
          if section \<in> regeneratingSections r then (st, [])
          else
            let languageForSection =
                  (case sectionLanguages r section of Some l \<Rightarrow> l | None \<Rightarrow> English);
                st = addLog e (str ''[START] Regenerating section: '' @ section_name section
                               @ str '' in '' @ language_name languageForSection @ str ''...'') st;
                st = st\<lparr>regeneratingSections := insert section (regeneratingSections st)\<rparr>
            in (case regenerateSectionContent_start (dateNow e) section product (options r)
                       languageForSection of
                  Awaiting ls req \<Rightarrow> (addLogs e ls st, [(Regenerated section, Gateway req)])
                | Finished ls newContent \<Rightarrow>
                    (handleRegenerateSection_settle e section (Inr newContent)
                       (addLogs e ls st), [])))"

definition handleRegenerateSection_regenerated ::
  "env \<Rightarrow> Section \<Rightarrow> gateway_result \<Rightarrow> app_state \<Rightarrow> app_state" where
  "handleRegenerateSection_regenerated e section r st =
     (case regenerateSectionContent_finish section r of
        (ls, res) \<Rightarrow> handleRegenerateSection_settle e section res (addLogs e ls st))"

section \<open>The two reconciliation effects\<close>

text \<open>
  Both effects belong to one render and run after it, the one on the options before
  the one on the language. Every state variable in their bodies, and in the two
  handlers they call, is the value of that render, the state \<open>r\<close>; what they set and log
  goes to the state of the moment, \<open>st\<close>.
\<close>

text \<open>The effect on the sidebar options.\<close>

definition options_effect :: "env \<Rightarrow> app_state \<Rightarrow> app_state \<Rightarrow> app_state \<times> awaited list" where
  "options_effect e r st =
     (case (generatedContent r, lastUsedOptions r) of
        (Some content, Some lastUsed) \<Rightarrow>
          if isLoading r \<or> regeneratingSections r \<noteq> {} then (st, [])
          else
            let sectionsToUpdate =
                  (if tone (options r) \<noteq> tone lastUsed
                      \<or> length_opt (options r) \<noteq> length_opt lastUsed
                      \<or> emojis (options r) \<noteq> emojis lastUsed
                   then [Description] else [])
            in if sectionsToUpdate \<noteq> [] then
                 fold (\<lambda>section (st, reqs).
                         case handleRegenerateSection e r section st of
                           (st, new) \<Rightarrow> (st, reqs @ new))
                   sectionsToUpdate (st\<lparr>lastUsedOptions := Some (options r)\<rparr>, [])
               else (st, [])
      | _ \<Rightarrow> (st, []))"

text \<open>
  The effect on the output language. The line that \<^verbatim>\<open>Promise.all(promises).then\<close>
  logs once every translation of the pass has settled is written by a later
  continuation and changes the log only; it is not part of this piece.
\<close>

definition language_effect :: "env \<Rightarrow> app_state \<Rightarrow> app_state \<Rightarrow> app_state \<times> awaited list" where
  "language_effect e r st =
     (case (generatedContent r, lastUsedOptions r, lastUsedOutputLanguage r) of
        (Some content, Some lastUsed, Some lastOut) \<Rightarrow>
          if isLoading r \<or> regeneratingSections r \<noteq> {} then (st, [])
          else if outputLanguage r \<noteq> lastOut then
            let targetLanguage =
                  (case outputLanguage r of OutAuto \<Rightarrow> originLanguage r | Out l \<Rightarrow> l);
                st = addLog e (str ''[SYSTEM] Output language changed to: ''
                               @ output_language_name (outputLanguage r)
                               @ str ''. Updating content...'') st;
                st = st\<lparr>lastUsedOutputLanguage := Some (outputLanguage r)\<rparr>;
                sectionsToTranslate =
                  [Header, Description, Features]
                  @ (case map_of content (str ''reviews'') of
                       Some v \<Rightarrow> if truthy v then [Reviews] else []
                     | None \<Rightarrow> [])
            in fold (\<lambda>section (st, reqs).
                       if sectionLanguages r section \<noteq> Some targetLanguage then
                         (case handleTranslateSection e r section targetLanguage st of
                            (st, new) \<Rightarrow> (st, reqs @ new))
                       else (st, reqs))
                 sectionsToTranslate (st, [])
          else (st, [])
      | _ \<Rightarrow> (st, []))"

text \<open>The two effects of the render of the state \<open>r\<close>, in the order of their declaration.\<close>

definition effects :: "env \<Rightarrow> app_state \<Rightarrow> app_state \<times> awaited list" where
  "effects e r =
     (case options_effect e r r of
        (st, reqs) \<Rightarrow>
          (case language_effect e r st of (st, new) \<Rightarrow> (st, reqs @ new)))"

section \<open>The interface and the event loop\<close>

text \<open>
  The program is single-threaded: one piece of a handler runs at a time, and the
  awaited calls are settled in any order. The system is the state of \<^verbatim>\<open>App\<close> and the
  calls that are awaited. An event is an action of the user, the run of the effects
  of a render, or the settling of an awaited call with what came back. The component
  is taken to have rendered between two events, as React does: a handler that the
  user starts is the closure of the render of the state the events before it have
  left, and so are the two effects of a pass, both of the same render. The rest of a
  handler after an await reads no state variable of its closure but those the
  continuation carries.
\<close>

record system =
  app :: app_state
  inflight :: "awaited list"

datatype outcome =
    Extracted "jsstring list" "js_error + ScrapedProductData"
  | Answered gateway_result

datatype event =
    TypeInput jsstring
  | PressGenerate
  | PressClear
  | PressReset
  | ChooseTone Tone
  | ChooseLength Length
  | ChooseEmojis Emojis
  | ChooseOutputLanguage OutputLanguage
  | PressRegenerate Section
  | PressTranslate Section Language
  | Edit Section jsstring
  | Effects
  | Settle continuation outcome

definition initial_system :: system where
  "initial_system = \<lparr>app = initial_state, inflight = []\<rparr>"

text \<open>The rest of a handler, run on what its awaited call brought back.\<close>

fun resume ::
  "env \<Rightarrow> continuation \<Rightarrow> outcome \<Rightarrow> app_state \<Rightarrow> (app_state \<times> awaited list) option" where
  "resume e (Scraped opts outLang) (Extracted ls r) st =
     Some (handleGenerate_scraped e opts outLang ls r st)"
| "resume e (GeneratedAll opts outLang scrapedData) (Answered r) st =
     Some (handleGenerate_generated e opts outLang scrapedData r st, [])"
| "resume e (Regenerated section) (Answered r) st =
     Some (handleRegenerateSection_regenerated e section r st, [])"
| "resume e (Translated section targetLanguage) (Answered r) st =
     Some (handleTranslateSection_translated e section targetLanguage r st, [])"
| "resume e c out st = None"

fun take_awaited :: "continuation \<Rightarrow> awaited list \<Rightarrow> awaited list option" where
  "take_awaited c [] = None"
| "take_awaited c (a # as) =
     (if fst a = c then Some as else map_option ((#) a) (take_awaited c as))"

text \<open>The conditions under which \<^verbatim>\<open>Header\<close> and \<^verbatim>\<open>Sidebar\<close> disable their controls.\<close>

definition isGenerateDisabled :: "app_state \<Rightarrow> bool" where
  "isGenerateDisabled st \<longleftrightarrow> isLoading st \<or> trim (userInput st) = []"

definition isClearDisabled :: "app_state \<Rightarrow> bool" where
  "isClearDisabled st \<longleftrightarrow> trim (userInput st) = [] \<and> generatedContent st = None"

definition isOptionsDefault :: "app_state \<Rightarrow> bool" where
  "isOptionsDefault st \<longleftrightarrow> options st = defaultOptions \<and> outputLanguage st = OutAuto"

definition isResetDisabled :: "app_state \<Rightarrow> bool" where
  "isResetDisabled st \<longleftrightarrow> isClearDisabled st \<and> isOptionsDefault st"

definition sidebarDisabled :: "app_state \<Rightarrow> bool" where
  "sidebarDisabled st \<longleftrightarrow> isLoading st \<or> regeneratingSections st \<noteq> {}"

text \<open>\<^verbatim>\<open>generatedContent?.reviews\<close> as a condition.\<close>

definition reviews_shown :: "app_state \<Rightarrow> bool" where
  "reviews_shown st =
     (case generatedContent st of
        None \<Rightarrow> False
      | Some c \<Rightarrow> (case map_of c (str ''reviews'') of None \<Rightarrow> False | Some v \<Rightarrow> truthy v))"

definition dispatch :: "system \<Rightarrow> app_state \<times> awaited list \<Rightarrow> system" where
  "dispatch sys r = \<lparr>app = fst r, inflight = inflight sys @ snd r\<rparr>"

text \<open>
  One event. A control that is disabled does nothing. Regeneration is what the
  card button and the keys Ctrl+1 to Ctrl+5 ask for; the key for the reviews is
  ignored when there are none. Translation and editing are offered here in every
  state, which is at least as often as the cards offer them.
\<close>

fun step :: "env \<Rightarrow> event \<Rightarrow> system \<Rightarrow> system" where
  "step e (TypeInput t) sys =
     (if isLoading (app sys) then sys else sys\<lparr>app := (app sys)\<lparr>userInput := t\<rparr>\<rparr>)"
| "step e PressGenerate sys =
     (if isGenerateDisabled (app sys) then sys else dispatch sys (handleGenerate e (app sys)))"
| "step e PressClear sys =
     (if isClearDisabled (app sys) then sys else sys\<lparr>app := handleClear e (app sys)\<rparr>)"
| "step e PressReset sys =
     (if isResetDisabled (app sys) then sys else sys\<lparr>app := handleReset e (app sys)\<rparr>)"
| "step e (ChooseTone v) sys =
     (if sidebarDisabled (app sys) then sys
      else sys\<lparr>app := (app sys)\<lparr>options := (options (app sys))\<lparr>tone := v\<rparr>\<rparr>\<rparr>)"
| "step e (ChooseLength v) sys =
     (if sidebarDisabled (app sys) then sys
      else sys\<lparr>app := (app sys)\<lparr>options := (options (app sys))\<lparr>length_opt := v\<rparr>\<rparr>\<rparr>)"
| "step e (ChooseEmojis v) sys =
     (if sidebarDisabled (app sys) then sys
      else sys\<lparr>app := (app sys)\<lparr>options := (options (app sys))\<lparr>emojis := v\<rparr>\<rparr>\<rparr>)"
| "step e (ChooseOutputLanguage v) sys =
     (if sidebarDisabled (app sys) then sys
      else sys\<lparr>app := (app sys)\<lparr>outputLanguage := v\<rparr>\<rparr>)"
| "step e (PressRegenerate section) sys =
     (if section = Reviews \<and> \<not> reviews_shown (app sys) then sys
      else dispatch sys (handleRegenerateSection e (app sys) section (app sys)))"
| "step e (PressTranslate section targetLanguage) sys =
     dispatch sys (handleTranslateSection e (app sys) section targetLanguage (app sys))"
| "step e (Edit section newContent) sys =
     sys\<lparr>app := handleUpdateContent section newContent (app sys)\<rparr>"
| "step e Effects sys = dispatch sys (effects e (app sys))"
| "step e (Settle c out) sys =
     (case take_awaited c (inflight sys) of
        None \<Rightarrow> sys
      | Some rest \<Rightarrow>
          (case resume e c out (app sys) of
             None \<Rightarrow> sys
           | Some r \<Rightarrow> dispatch \<lparr>app = app sys, inflight = rest\<rparr> r))"

fun run :: "(env \<times> event) list \<Rightarrow> system \<Rightarrow> system" where
  "run [] sys = sys"
| "run (x # xs) sys = run xs (step (fst x) (snd x) sys)"

text \<open>The section a continuation works on, and the continuations of a generation.\<close>

fun section_of :: "continuation \<Rightarrow> Section option" where
  "section_of (Regenerated section) = Some section"
| "section_of (Translated section targetLanguage) = Some section"
| "section_of (Scraped opts outLang) = None"
| "section_of (GeneratedAll opts outLang scrapedData) = None"

definition busy_sections :: "awaited list \<Rightarrow> Section list" where
  "busy_sections as = List.map_filter (\<lambda>a. section_of (fst a)) as"

definition generating :: "awaited \<Rightarrow> bool" where
  "generating a \<longleftrightarrow> section_of (fst a) = None"

text \<open>The calls of the gateway among what handlers have sent out.\<close>

fun is_gateway :: "awaited \<Rightarrow> bool" where
  "is_gateway (c, Gateway req) = True"
| "is_gateway (c, Extract m inp src) = False"

definition gateway_calls :: "awaited list \<Rightarrow> awaited list" where
  "gateway_calls as = filter is_gateway as"

section \<open>Notions used in the statements\<close>


text \<open>
  The object after \<^verbatim>\<open>header\<close>, \<^verbatim>\<open>description\<close> and \<^verbatim>\<open>features\<close> have been overwritten with the
  cleaned forms of \<open>h\<close>, \<open>d\<close> and \<open>f\<close>, and the step on \<^verbatim>\<open>reviews\<close> that follows. They name the
  stages of \<open>parse_and_clean\<close> in the proofs.
\<close>

definition cleaned_base :: "jsstring \<Rightarrow> jsstring \<Rightarrow> jsstring \<Rightarrow> jsobject \<Rightarrow> jsobject" where
  "cleaned_base h d f kvs =
     AList.update (str ''features'') (JStr (clean_features_all f))
       (AList.update (str ''description'') (JStr (cleanAiOutput d))
         (AList.update (str ''header'') (JStr (cleanAiOutput h)) kvs))"

definition cleaned_reviews :: "jsobject \<Rightarrow> jsobject \<Rightarrow> js_error + jsobject" where
  "cleaned_reviews kvs base =
     (case map_of kvs (str ''reviews'') of
        None \<Rightarrow> Inr base
      | Some v \<Rightarrow>
          if \<not> truthy v then Inr base
          else (case v of
                  JStr r \<Rightarrow> Inr (AList.update (str ''reviews'') (JStr (cleanAiOutput r)) base)
                | _ \<Rightarrow> Inl type_error))"




text \<open>
  Two calls of the photo branch in succession, the clock read at \<open>first\<close> by the one
  and at \<open>second\<close> by the other.
\<close>

definition regenerate_photo_twice ::
  "nat \<Rightarrow> nat \<Rightarrow> ScrapedProductData \<Rightarrow> CustomizationOptions \<Rightarrow> Language
     \<Rightarrow> jsstring started \<times> jsstring started" where
  "regenerate_photo_twice first second product opts lang =
     (regenerateSectionContent_start first Photo product opts lang,
      regenerateSectionContent_start second Photo product opts lang)"

text \<open>
  When \<^verbatim>\<open>handleRegenerateSection\<close>, made in the render of \<open>r\<close>, sends a call out, and the
  language it asks for.
\<close>

definition regenerate_sends :: "Section \<Rightarrow> app_state \<Rightarrow> bool" where
  "regenerate_sends s r \<longleftrightarrow> productData r \<noteq> None \<and> s \<notin> regeneratingSections r \<and> s \<noteq> Photo"

definition language_for :: "app_state \<Rightarrow> Section \<Rightarrow> Language" where
  "language_for r s = (case sectionLanguages r s of Some l \<Rightarrow> l | None \<Rightarrow> English)"

text \<open>
  When \<^verbatim>\<open>handleTranslateSection\<close>, made in the render of \<open>r\<close>, sends a call out: the
  section holds a non-empty string.
\<close>

definition translate_sends :: "Section \<Rightarrow> app_state \<Rightarrow> bool" where
  "translate_sends s r \<longleftrightarrow>
     productData r \<noteq> None \<and> s \<notin> regeneratingSections r
     \<and> (case generatedContent r of
           None \<Rightarrow> False
         | Some c \<Rightarrow> (case map_of c (section_name s) of Some (JStr t) \<Rightarrow> t \<noteq> [] | _ \<Rightarrow> False))"


text \<open>The awaited calls that work on the section \<open>s\<close>.\<close>

definition calls_on :: "Section \<Rightarrow> awaited list \<Rightarrow> awaited list" where
  "calls_on s ws = filter (\<lambda>a. section_of (fst a) = Some s) ws"

text \<open>
  What the awaited calls and the state have to do with each other as far as the
  full generation goes: at most one is awaited, the loading flag is up exactly when
  one is, and there is no content while it is up.
\<close>

definition coherent :: "app_state \<Rightarrow> awaited list \<Rightarrow> bool" where
  "coherent st ws \<longleftrightarrow>
     length (filter generating ws) \<le> 1
     \<and> (isLoading st \<longleftrightarrow> filter generating ws \<noteq> [])
     \<and> (isLoading st \<longrightarrow> generatedContent st = None)"

text \<open>
  A piece of a handler that leaves the full generation alone: it keeps the loading
  flag, keeps the content present or absent as it was, and awaits no generation.
\<close>

definition quiet :: "app_state \<Rightarrow> app_state \<times> awaited list \<Rightarrow> bool" where
  "quiet st x \<longleftrightarrow>
     isLoading (fst x) = isLoading st
     \<and> (generatedContent (fst x) = None \<longleftrightarrow> generatedContent st = None)
     \<and> filter generating (snd x) = []"

text \<open>
  A generation that settles with a failure: the extraction threw, or
  \<^verbatim>\<open>generateAllContent\<close> did.
\<close>

fun generation_fails :: "env \<Rightarrow> continuation \<Rightarrow> outcome \<Rightarrow> bool" where
  "generation_fails e (Scraped opts outLang) (Extracted ls r) = isl r"
| "generation_fails e (GeneratedAll opts outLang scrapedData) (Answered r) =
     isl (snd (generateAllContent_finish (JSON_parse e) r))"
| "generation_fails e c out = False"

section \<open>Concrete inputs\<close>

text \<open>
  A clock reading and a parser for the examples below. The parser is \<^verbatim>\<open>JSON.parse\<close> on
  the three texts the examples send through it: the empty object, an object with the
  four sections, and a text that is no JSON.
\<close>

definition four_sections :: jsstring where
  "four_sections =
     [123, 34] @ str ''header'' @ [34, 58, 34] @ str ''H'' @ [34, 44, 34]
     @ str ''description'' @ [34, 58, 34] @ str ''D'' @ [34, 44, 34]
     @ str ''features'' @ [34, 58, 34] @ str ''- F'' @ [34, 44, 34]
     @ str ''reviews'' @ [34, 58, 34] @ str ''R'' @ [34, 125]"

definition parse0 :: "jsstring \<Rightarrow> js_error + json" where
  "parse0 t =
     (if t = str ''{}'' then Inr (JObj [])
      else if t = four_sections
      then Inr (JObj [(str ''header'', JStr (str ''H'')), (str ''description'', JStr (str ''D'')),
                      (str ''features'', JStr (str ''- F'')), (str ''reviews'', JStr (str ''R''))])
      else Inl (Error (str ''Unexpected token'')))"

definition env0 :: env where
  "env0 = \<lparr>timeString = str ''10:00:00'', dateNow = 1700000000000, JSON_parse = parse0,
            JSON_stringify = (\<lambda>d. str ''{...}'')\<rparr>"





text \<open>
  The product of the scenario in the specification, a widget without reviews, and
  the same widget with two reviews.
\<close>

definition widget :: ScrapedProductData where
  "widget = \<lparr>url = str ''https://example.com/widget'', image_url = str ''https://x/img.png'',
              title = str ''Widget'', description = str ''A widget.'',
              features = [str ''Durable'', str ''Lightweight''], price = None,
              language = Some (str ''en''), reviews = Some []\<rparr>"


text \<open>
  A state in which content is shown: the widget has been generated, nothing is
  loading and no section is pending.
\<close>

definition ready_state :: app_state where
  "ready_state =
     initial_state\<lparr>userInput := str ''https://example.com/widget'',
       productData := Some widget,
       generatedContent := Some [(str ''header'', JStr (str ''H'')),
          (str ''description'', JStr (str ''D'')), (str ''features'', JStr ([8226] @ str '' F'')),
          (str ''photo'', JStr (str ''https://x/img.png''))],
       lastUsedOptions := Some defaultOptions, lastUsedOutputLanguage := Some OutAuto\<rparr>"


text \<open>
  The race of the Reset button with a generation: the user chooses the casual tone
  and Hebrew as the output language, types the URL of the widget and presses
  Generate, presses Reset while the extraction is awaited, the extraction returns
  the widget, the gateway answers with the four sections, and the effects of the
  render that follows run. The effects of the renders before it find no content.
\<close>

definition reset_midway :: system where
  "reset_midway =
     run [(env0, ChooseTone Casual),
          (env0, ChooseOutputLanguage (Out Hebrew)),
          (env0, TypeInput (str ''https://example.com/widget'')),
          (env0, PressGenerate),
          (env0, PressReset),
          (env0, Settle (Scraped (defaultOptions\<lparr>tone := Casual\<rparr>) (Out Hebrew))
                   (Extracted [] (Inr widget))),
          (env0, Settle (GeneratedAll (defaultOptions\<lparr>tone := Casual\<rparr>) (Out Hebrew) widget)
                   (Answered (Response four_sections))),
          (env0, Effects)]
       initial_system"

section \<open>Lemmas on text\<close>

lemma trim_Nil_iff: "trim s = [] \<longleftrightarrow> (\<forall>c \<in> set s. is_ws c)"
proof
  assume "trim s = []"
  then have "dropWhile is_ws (rev (dropWhile is_ws s)) = []" by (simp add: trim_def)
  then have "\<forall>c \<in> set (dropWhile is_ws s). is_ws c" by (simp add: dropWhile_eq_Nil_conv)
  then have "dropWhile is_ws s = []"
    by (metis hd_dropWhile list.set_sel(1))
  then show "\<forall>c \<in> set s. is_ws c" by (simp add: dropWhile_eq_Nil_conv)
next
  assume "\<forall>c \<in> set s. is_ws c"
  then have "dropWhile is_ws s = []" by simp
  then show "trim s = []" by (simp only: trim_def rev.simps dropWhile.simps)
qed

lemma dec_not_Nil: "dec n \<noteq> []"
  by (subst dec.simps) simp

lemma dec_inj: "dec n = dec m \<Longrightarrow> n = m"
proof (induction n arbitrary: m rule: dec.induct)
  case (1 n)
  show ?case
  proof (cases "n < 10")
    case True
    show ?thesis
    proof (cases "m < 10")
      case True
      with \<open>n < 10\<close> "1.prems" show ?thesis by (simp add: dec.simps[of n] dec.simps[of m])
    next
      case False
      with \<open>n < 10\<close> "1.prems" have "[48 + n] = dec (m div 10) @ [48 + m mod 10]"
        by (simp add: dec.simps[of n] dec.simps[of m])
      then show ?thesis using dec_not_Nil[of "m div 10"] by (cases "dec (m div 10)") auto
    qed
  next
    case False
    show ?thesis
    proof (cases "m < 10")
      case True
      with False "1.prems" have "dec (n div 10) @ [48 + n mod 10] = [48 + m]"
        by (simp add: dec.simps[of n] dec.simps[of m])
      then show ?thesis using dec_not_Nil[of "n div 10"] by (cases "dec (n div 10)") auto
    next
      case m: False
      with False "1.prems" have "dec (n div 10) @ [48 + n mod 10] = dec (m div 10) @ [48 + m mod 10]"
        by (simp add: dec.simps[of n] dec.simps[of m])
      then have a: "dec (n div 10) = dec (m div 10)" and b: "n mod 10 = m mod 10" by auto
      from "1.IH"[OF False a] have "n div 10 = m div 10" .
      with b show ?thesis by (metis div_mult_mod_eq)
    qed
  qed
qed





lemma dropWhile_hd_id: "xs \<noteq> [] \<Longrightarrow> \<not> P (hd xs) \<Longrightarrow> dropWhile P xs = xs"
  by (cases xs) auto


lemma trim_fixed: "t \<noteq> [] \<Longrightarrow> \<not> is_ws (hd t) \<Longrightarrow> \<not> is_ws (last t) \<Longrightarrow> trim t = t"
proof -
  assume a: "t \<noteq> []" "\<not> is_ws (hd t)" "\<not> is_ws (last t)"
  have 1: "dropWhile is_ws t = t" using a by (simp add: dropWhile_hd_id)
  have "rev t \<noteq> []" "\<not> is_ws (hd (rev t))" using a by (simp_all add: hd_rev)
  then have "dropWhile is_ws (rev t) = rev t" by (rule dropWhile_hd_id)
  with 1 show ?thesis by (simp add: trim_def)
qed




section \<open>Frame lemmas of the log\<close>

lemma addLog_fields [simp]:
  "userInput (addLog e l st) = userInput st"
  "isLoading (addLog e l st) = isLoading st"
  "error (addLog e l st) = error st"
  "productData (addLog e l st) = productData st"
  "generatedContent (addLog e l st) = generatedContent st"
  "regeneratingSections (addLog e l st) = regeneratingSections st"
  "toastMessage (addLog e l st) = toastMessage st"
  "showDebugLog (addLog e l st) = showDebugLog st"
  "options (addLog e l st) = options st"
  "outputLanguage (addLog e l st) = outputLanguage st"
  "lastUsedOptions (addLog e l st) = lastUsedOptions st"
  "lastUsedOutputLanguage (addLog e l st) = lastUsedOutputLanguage st"
  "sectionLanguages (addLog e l st) = sectionLanguages st"
  "originLanguage (addLog e l st) = originLanguage st"
  by (simp_all add: addLog_def)

lemma addLogs_fields [simp]:
  "userInput (addLogs e ls st) = userInput st"
  "isLoading (addLogs e ls st) = isLoading st"
  "error (addLogs e ls st) = error st"
  "productData (addLogs e ls st) = productData st"
  "generatedContent (addLogs e ls st) = generatedContent st"
  "regeneratingSections (addLogs e ls st) = regeneratingSections st"
  "toastMessage (addLogs e ls st) = toastMessage st"
  "showDebugLog (addLogs e ls st) = showDebugLog st"
  "options (addLogs e ls st) = options st"
  "outputLanguage (addLogs e ls st) = outputLanguage st"
  "lastUsedOptions (addLogs e ls st) = lastUsedOptions st"
  "lastUsedOutputLanguage (addLogs e ls st) = lastUsedOutputLanguage st"
  "sectionLanguages (addLogs e ls st) = sectionLanguages st"
  "originLanguage (addLogs e ls st) = originLanguage st"
  unfolding addLogs_def by (induction ls arbitrary: st; simp)+

lemma logs_addLog: "logs (addLog e l st) = logs st @ [str ''['' @ timeString e @ str ''] '' @ l]"
  by (simp add: addLog_def)

lemma logs_addLogs:
  "logs (addLogs e ls st) = logs st @ map (\<lambda>l. str ''['' @ timeString e @ str ''] '' @ l) ls"
  unfolding addLogs_def by (induction ls arbitrary: st) (simp_all add: logs_addLog)

section \<open>Generate on a blank input\<close>

text \<open>
  C10. When the input is empty or holds white space only, \<^verbatim>\<open>handleGenerate\<close> returns
  the state it was given, every cell as it was (logs, error, content, product,
  options, languages, loading flag), and sends nothing out: no extraction, no call
  of the gateway. The Generate button, disabled on such an input, does the same.
\<close>

theorem generate_blank_is_noop:
  assumes "\<forall>c \<in> set (userInput st). is_ws c"
  shows "handleGenerate e st = (st, [])
         \<and> step e PressGenerate \<lparr>app = st, inflight = waiting\<rparr> = \<lparr>app = st, inflight = waiting\<rparr>"
  using assms by (simp add: handleGenerate_def isGenerateDisabled_def trim_Nil_iff)

theorem generate_blank_is_noop_witness:
  "list_all is_ws (userInput (initial_state\<lparr>userInput := str ''  ''\<rparr>))
   \<and> handleGenerate env0 (initial_state\<lparr>userInput := str ''  ''\<rparr>)
       = (initial_state\<lparr>userInput := str ''  ''\<rparr>, [])
   \<and> step env0 PressGenerate \<lparr>app = initial_state\<lparr>userInput := str ''  ''\<rparr>, inflight = []\<rparr>
       = \<lparr>app = initial_state\<lparr>userInput := str ''  ''\<rparr>, inflight = []\<rparr>"
proof -
  have h: "\<forall>c \<in> set (userInput (initial_state\<lparr>userInput := str ''  ''\<rparr>)). is_ws c"
    by (simp add: str_def is_ws_def)
  from generate_blank_is_noop[OF h] h show ?thesis by (simp add: list_all_iff)
qed

section \<open>Lemmas on cleaning, and the photo token\<close>












lemma clean_examples:
  "cleanAiOutput (str ''- item'') = str ''- item''"
  "cleanAiOutput (str ''A'' @ [10] @ str ''## B'' @ [10] @ str ''C'') = str ''A'' @ [10, 10] @ str ''C''"
  "cleanAiOutput (str '' a'') = str ''a''"
  "cleanAiOutput (str ''Buy now. Here is the deal: cheap'') = str ''Buy now. cheap''"
  by (simp_all add: cleanAiOutput_def Let_def introsToRemove_def str_def trim_def is_ws_def is_lt_def
      match_intro_at_def canon_def)

lemma is_lt_ws: "is_lt c \<Longrightarrow> is_ws c"
  by (auto simp: is_lt_def is_ws_def)







text \<open>
  C9, amended. Regenerating the photo calls no gateway: the service returns at once
  the image URL of the product followed by \<^verbatim>\<open>&t=\<close> and the clock reading in
  milliseconds, and the handler sends nothing out. Two calls in succession return
  different strings whenever the clock readings of the two calls differ.
\<close>

theorem photo_regeneration:
  "regenerateSectionContent_start now Photo product opts lang
     = Finished [str ''[REGENERATE-PHOTO] Returning new URL: ''
                 @ (image_url product @ str ''&t='' @ dec now)]
         (image_url product @ str ''&t='' @ dec now)
   \<and> snd (handleRegenerateSection e r Photo st) = []
   \<and> (first \<noteq> second \<longrightarrow>
        fst (regenerate_photo_twice first second product opts lang)
        \<noteq> snd (regenerate_photo_twice first second product opts lang))"
proof -
  have a: "regenerateSectionContent_start n Photo product opts lang
           = Finished [str ''[REGENERATE-PHOTO] Returning new URL: ''
                       @ (image_url product @ str ''&t='' @ dec n)]
               (image_url product @ str ''&t='' @ dec n)" for n
    by (simp add: regenerateSectionContent_start_def Let_def)
  have b: "snd (handleRegenerateSection e r Photo st) = []"
    by (simp add: handleRegenerateSection_def regenerateSectionContent_start_def Let_def
        split: option.splits)
  have c: "first \<noteq> second \<Longrightarrow>
        fst (regenerate_photo_twice first second product opts lang)
        \<noteq> snd (regenerate_photo_twice first second product opts lang)"
    using dec_inj[of first second] by (auto simp: regenerate_photo_twice_def a)
  from a b c show ?thesis by blast
qed

theorem photo_regeneration_witness:
  "fst (regenerate_photo_twice 1 2 widget defaultOptions English)
   \<noteq> snd (regenerate_photo_twice 1 2 widget defaultOptions English)"
  using photo_regeneration[of 1 widget defaultOptions English env0 initial_state initial_state 1 2]
  by simp

text \<open>
  The claim as it stands fails when both calls read the same millisecond: the two
  strings are then the same string.
\<close>

theorem photo_regeneration_same_reading:
  "fst (regenerate_photo_twice 1700000000000 1700000000000 widget defaultOptions English)
   = snd (regenerate_photo_twice 1700000000000 1700000000000 widget defaultOptions English)
   \<and> fst (regenerate_photo_twice 1700000000000 1700000000000 widget defaultOptions English)
     = Finished [str ''[REGENERATE-PHOTO] Returning new URL: ''
                 @ (str ''https://x/img.png'' @ str ''&t='' @ str ''1700000000000'')]
         (str ''https://x/img.png'' @ str ''&t='' @ str ''1700000000000'')"
  by (simp add: regenerate_photo_twice_def regenerateSectionContent_start_def widget_def
      dec.simps str_def Let_def)

section \<open>The full generation\<close>

lemma section_keys_distinct:
  "str ''header'' \<noteq> str ''description''" "str ''header'' \<noteq> str ''features''"
  "str ''header'' \<noteq> str ''reviews''" "str ''header'' \<noteq> str ''photo''"
  "str ''description'' \<noteq> str ''features''" "str ''description'' \<noteq> str ''reviews''"
  "str ''description'' \<noteq> str ''photo''" "str ''features'' \<noteq> str ''reviews''"
  "str ''features'' \<noteq> str ''photo''" "str ''reviews'' \<noteq> str ''photo''"
  "str ''description'' \<noteq> str ''header''" "str ''features'' \<noteq> str ''header''"
  "str ''reviews'' \<noteq> str ''header''" "str ''photo'' \<noteq> str ''header''"
  "str ''features'' \<noteq> str ''description''" "str ''reviews'' \<noteq> str ''description''"
  "str ''photo'' \<noteq> str ''description''" "str ''reviews'' \<noteq> str ''features''"
  "str ''photo'' \<noteq> str ''features''" "str ''photo'' \<noteq> str ''reviews''"
  by (simp_all add: str_def)

lemma text_or_empty_error: "text_or_empty x = Inl err \<Longrightarrow> err = type_error"
  by (auto simp: text_or_empty_def split: option.splits if_splits json.splits)

lemma map_of_cleaned_base:
  "map_of (cleaned_base h d f kvs)
   = (map_of kvs)(str ''header'' \<mapsto> JStr (cleanAiOutput h),
        str ''description'' \<mapsto> JStr (cleanAiOutput d),
        str ''features'' \<mapsto> JStr (clean_features_all f))"
  by (simp add: cleaned_base_def update_conv')

lemma parse_and_clean_object:
  assumes "P txt = Inr (JObj kvs)"
    and "text_or_empty (map_of kvs (str ''header'')) = Inr h"
    and "text_or_empty (map_of kvs (str ''description'')) = Inr d"
    and "text_or_empty (map_of kvs (str ''features'')) = Inr f"
  shows "parse_and_clean P txt = cleaned_reviews kvs (cleaned_base h d f kvs)"
proof -
  have 1: "map_of (AList.update (str ''header'') (JStr (cleanAiOutput h)) kvs) (str ''description'')
           = map_of kvs (str ''description'')"
    by (simp add: update_conv' section_keys_distinct)
  have 2: "map_of (AList.update (str ''description'') (JStr (cleanAiOutput d))
             (AList.update (str ''header'') (JStr (cleanAiOutput h)) kvs)) (str ''features'')
           = map_of kvs (str ''features'')"
    by (simp add: update_conv' section_keys_distinct)
  have 3: "map_of (cleaned_base h d f kvs) (str ''reviews'') = map_of kvs (str ''reviews'')"
    by (simp add: map_of_cleaned_base section_keys_distinct)
  show ?thesis
    unfolding parse_and_clean_def cleaned_reviews_def
    by (simp only: assms sum.case json.case Let_def 1 2 3 cleaned_base_def[symmetric])
qed






lemma finish_rejected: "generateAllContent_finish P (Rejected err) = ([], Inl err)"
  by (simp add: generateAllContent_finish_def)


lemma finish_response_ok:
  "parse_and_clean P (trim t) = Inr c \<Longrightarrow> snd (generateAllContent_finish P (Response t)) = Inr c"
  by (simp add: generateAllContent_finish_def Let_def)


lemma generated_failure:
  assumes "snd (generateAllContent_finish (JSON_parse e) r) = Inl err"
  shows "handleGenerate_generated e opts outLang product r st
         = handleGenerate_catch e err (addLogs e (fst (generateAllContent_finish (JSON_parse e) r)) st)"
  using assms by (cases "generateAllContent_finish (JSON_parse e) r")
    (simp add: handleGenerate_generated_def)

lemma generated_success:
  assumes "snd (generateAllContent_finish (JSON_parse e) r) = Inr c"
  shows "generatedContent (handleGenerate_generated e opts outLang product r st)
         = Some (AList.update (str ''photo'') (JStr (image_url product)) c)"
    and "lastUsedOptions (handleGenerate_generated e opts outLang product r st) = Some opts"
    and "lastUsedOutputLanguage (handleGenerate_generated e opts outLang product r st) = Some outLang"
    and "isLoading (handleGenerate_generated e opts outLang product r st) = False"
    and "error (handleGenerate_generated e opts outLang product r st) = error st"
    and "productData (handleGenerate_generated e opts outLang product r st) = productData st"
    and "regeneratingSections (handleGenerate_generated e opts outLang product r st)
         = regeneratingSections st"
  using assms by (cases "generateAllContent_finish (JSON_parse e) r";
      simp add: handleGenerate_generated_def Let_def)+

lemma catch_fields:
  "error (handleGenerate_catch e err st)
   = Some (if message err = [] then str ''An unexpected error occurred.'' else message err)"
  "isLoading (handleGenerate_catch e err st) = False"
  "generatedContent (handleGenerate_catch e err st) = generatedContent st"
  "productData (handleGenerate_catch e err st) = productData st"
  "lastUsedOptions (handleGenerate_catch e err st) = lastUsedOptions st"
  "lastUsedOutputLanguage (handleGenerate_catch e err st) = lastUsedOutputLanguage st"
  "regeneratingSections (handleGenerate_catch e err st) = regeneratingSections st"
  "sectionLanguages (handleGenerate_catch e err st) = sectionLanguages st"
  "toastMessage (handleGenerate_catch e err st) = toastMessage st"
  "options (handleGenerate_catch e err st) = options st"
  "outputLanguage (handleGenerate_catch e err st) = outputLanguage st"
  "userInput (handleGenerate_catch e err st) = userInput st"
  "originLanguage (handleGenerate_catch e err st) = originLanguage st"
  "logs (handleGenerate_catch e err st)
   = logs st @ [str ''['' @ timeString e @ str ''] '' @ (str ''[ERROR] Generation failed: ''
       @ (if message err = [] then str ''An unexpected error occurred.'' else message err))]"
  by (simp_all add: handleGenerate_catch_def Let_def logs_addLog)










lemma parse0_four: "parse0 (trim four_sections)
  = Inr (JObj [(str ''header'', JStr (str ''H'')), (str ''description'', JStr (str ''D'')),
               (str ''features'', JStr (str ''- F'')), (str ''reviews'', JStr (str ''R''))])"
proof -
  have "trim four_sections = four_sections"
    by (rule trim_fixed) (simp_all add: four_sections_def is_ws_def)
  then show ?thesis by (simp add: parse0_def four_sections_def str_def)
qed

lemma clean_four:
  "cleanAiOutput (str ''H'') = str ''H''" "cleanAiOutput (str ''D'') = str ''D''"
  "cleanAiOutput (str ''R'') = str ''R''" "clean_features_all (str ''- F'') = [8226] @ str '' F''"
  by (simp_all add: cleanAiOutput_def Let_def introsToRemove_def str_def trim_def is_ws_def
      is_lt_def match_intro_at_def canon_def clean_features_all_def feature_lines_all_def bullet_def)

lemma finish_four:
  "snd (generateAllContent_finish parse0 (Response four_sections))
   = Inr [(str ''header'', JStr (str ''H'')), (str ''description'', JStr (str ''D'')),
          (str ''features'', JStr ([8226] @ str '' F'')), (str ''reviews'', JStr (str ''R''))]"
proof -
  have "parse_and_clean parse0 (trim four_sections)
        = cleaned_reviews [(str ''header'', JStr (str ''H'')), (str ''description'', JStr (str ''D'')),
               (str ''features'', JStr (str ''- F'')), (str ''reviews'', JStr (str ''R''))]
            (cleaned_base (str ''H'') (str ''D'') (str ''- F'')
               [(str ''header'', JStr (str ''H'')), (str ''description'', JStr (str ''D'')),
               (str ''features'', JStr (str ''- F'')), (str ''reviews'', JStr (str ''R''))])"
    using parse0_four by (rule parse_and_clean_object)
      (simp_all add: text_or_empty_def truthy_def str_def)
  then have "parse_and_clean parse0 (trim four_sections)
   = Inr [(str ''header'', JStr (str ''H'')), (str ''description'', JStr (str ''D'')),
          (str ''features'', JStr ([8226] @ str '' F'')), (str ''reviews'', JStr (str ''R''))]"
    by (simp add: cleaned_reviews_def cleaned_base_def section_keys_distinct clean_four truthy_def)
  then show ?thesis by (rule finish_response_ok)
qed




section \<open>The cleaning rule\<close>





section \<open>The section handlers\<close>

lemma set_section_None [simp]: "set_section s t None = None"
  by (simp add: set_section_def)

lemma set_section_Some: "set_section s t (Some c) = Some (AList.update (section_name s) (JStr t) c)"
  by (simp add: set_section_def)

lemma set_section_eq_None [simp]: "set_section s t c = None \<longleftrightarrow> c = None"
  by (cases c) (simp_all add: set_section_def)

lemma regenerate_settle_fields:
  "userInput (handleRegenerateSection_settle e s r st) = userInput st"
  "isLoading (handleRegenerateSection_settle e s r st) = isLoading st"
  "error (handleRegenerateSection_settle e s r st) = error st"
  "productData (handleRegenerateSection_settle e s r st) = productData st"
  "generatedContent (handleRegenerateSection_settle e s r st)
   = (case r of Inr newContent \<Rightarrow> set_section s newContent (generatedContent st)
      | Inl err \<Rightarrow> generatedContent st)"
  "regeneratingSections (handleRegenerateSection_settle e s r st) = regeneratingSections st - {s}"
  "toastMessage (handleRegenerateSection_settle e s r st) = toastMessage st"
  "options (handleRegenerateSection_settle e s r st) = options st"
  "outputLanguage (handleRegenerateSection_settle e s r st) = outputLanguage st"
  "lastUsedOptions (handleRegenerateSection_settle e s r st) = lastUsedOptions st"
  "lastUsedOutputLanguage (handleRegenerateSection_settle e s r st) = lastUsedOutputLanguage st"
  "sectionLanguages (handleRegenerateSection_settle e s r st) = sectionLanguages st"
  "originLanguage (handleRegenerateSection_settle e s r st) = originLanguage st"
  by (cases r; simp add: handleRegenerateSection_settle_def Let_def)+

lemma regenerate_settle_logs:
  "logs (handleRegenerateSection_settle e s r st)
   = logs st @ [str ''['' @ timeString e @ str ''] '' @
       (case r of
          Inr newContent \<Rightarrow> str ''[SUCCESS] Section '' @ section_name s @ str '' regenerated.''
        | Inl err \<Rightarrow> str ''[ERROR] '' @ (str ''Failed to regenerate '' @ section_name s @ str '': ''
                                          @ message err))]"
  by (cases r; simp add: handleRegenerateSection_settle_def Let_def logs_addLog)

lemma translate_settle_fields:
  "userInput (handleTranslateSection_settle e s l r st) = userInput st"
  "isLoading (handleTranslateSection_settle e s l r st) = isLoading st"
  "error (handleTranslateSection_settle e s l r st) = error st"
  "productData (handleTranslateSection_settle e s l r st) = productData st"
  "generatedContent (handleTranslateSection_settle e s l r st)
   = (case r of Inr newContent \<Rightarrow> set_section s newContent (generatedContent st)
      | Inl err \<Rightarrow> generatedContent st)"
  "regeneratingSections (handleTranslateSection_settle e s l r st) = regeneratingSections st - {s}"
  "toastMessage (handleTranslateSection_settle e s l r st) = toastMessage st"
  "options (handleTranslateSection_settle e s l r st) = options st"
  "outputLanguage (handleTranslateSection_settle e s l r st) = outputLanguage st"
  "lastUsedOptions (handleTranslateSection_settle e s l r st) = lastUsedOptions st"
  "lastUsedOutputLanguage (handleTranslateSection_settle e s l r st) = lastUsedOutputLanguage st"
  "sectionLanguages (handleTranslateSection_settle e s l r st)
   = (case r of Inr newContent \<Rightarrow> (sectionLanguages st)(s \<mapsto> l) | Inl err \<Rightarrow> sectionLanguages st)"
  "originLanguage (handleTranslateSection_settle e s l r st) = originLanguage st"
  by (cases r; simp add: handleTranslateSection_settle_def Let_def)+

lemma translate_settle_logs:
  "logs (handleTranslateSection_settle e s l r st)
   = logs st @ [str ''['' @ timeString e @ str ''] '' @
       (case r of
          Inr newContent \<Rightarrow> str ''[SUCCESS] Section '' @ section_name s @ str '' translated.''
        | Inl err \<Rightarrow> str ''[ERROR] '' @ (str ''Failed to translate '' @ section_name s @ str '': ''
                                          @ message err))]"
  by (cases r; simp add: handleTranslateSection_settle_def Let_def logs_addLog)


lemma regenerate_sent:
  assumes "productData r = Some product" "s \<notin> regeneratingSections r" "s \<noteq> Photo"
  shows "snd (handleRegenerateSection e r s st)
         = [(Regenerated s, Gateway \<lparr>model = str ''gemini-2.5-flash'',
               prompt = generatePrompt product (options r) [(s, language_for r s)],
               json_schema = False\<rparr>)]"
    and "regeneratingSections (fst (handleRegenerateSection e r s st))
         = insert s (regeneratingSections st)"
    and "generatedContent (fst (handleRegenerateSection e r s st)) = generatedContent st"
  using assms
  by (simp_all add: handleRegenerateSection_def regenerateSectionContent_start_def Let_def
      language_for_def)

lemma regenerate_photo:
  assumes "productData r = Some product" "Photo \<notin> regeneratingSections r"
  shows "snd (handleRegenerateSection e r Photo st) = []"
    and "regeneratingSections (fst (handleRegenerateSection e r Photo st))
         = regeneratingSections st - {Photo}"
    and "generatedContent (fst (handleRegenerateSection e r Photo st))
         = set_section Photo (image_url product @ str ''&t='' @ dec (dateNow e)) (generatedContent st)"
  using assms
  by (auto simp: handleRegenerateSection_def regenerateSectionContent_start_def Let_def
      regenerate_settle_fields)

lemma regenerate_frame:
  "userInput (fst (handleRegenerateSection e r s st)) = userInput st"
  "isLoading (fst (handleRegenerateSection e r s st)) = isLoading st"
  "error (fst (handleRegenerateSection e r s st)) = error st"
  "productData (fst (handleRegenerateSection e r s st)) = productData st"
  "toastMessage (fst (handleRegenerateSection e r s st)) = toastMessage st"
  "options (fst (handleRegenerateSection e r s st)) = options st"
  "outputLanguage (fst (handleRegenerateSection e r s st)) = outputLanguage st"
  "lastUsedOptions (fst (handleRegenerateSection e r s st)) = lastUsedOptions st"
  "lastUsedOutputLanguage (fst (handleRegenerateSection e r s st)) = lastUsedOutputLanguage st"
  "sectionLanguages (fst (handleRegenerateSection e r s st)) = sectionLanguages st"
  "originLanguage (fst (handleRegenerateSection e r s st)) = originLanguage st"
  by (simp_all add: handleRegenerateSection_def regenerateSectionContent_start_def Let_def
      regenerate_settle_fields split: option.splits)

lemma regenerated_fields:
  "userInput (handleRegenerateSection_regenerated e s r st) = userInput st"
  "isLoading (handleRegenerateSection_regenerated e s r st) = isLoading st"
  "error (handleRegenerateSection_regenerated e s r st) = error st"
  "productData (handleRegenerateSection_regenerated e s r st) = productData st"
  "regeneratingSections (handleRegenerateSection_regenerated e s r st) = regeneratingSections st - {s}"
  "toastMessage (handleRegenerateSection_regenerated e s r st) = toastMessage st"
  "options (handleRegenerateSection_regenerated e s r st) = options st"
  "outputLanguage (handleRegenerateSection_regenerated e s r st) = outputLanguage st"
  "lastUsedOptions (handleRegenerateSection_regenerated e s r st) = lastUsedOptions st"
  "lastUsedOutputLanguage (handleRegenerateSection_regenerated e s r st) = lastUsedOutputLanguage st"
  "sectionLanguages (handleRegenerateSection_regenerated e s r st) = sectionLanguages st"
  "originLanguage (handleRegenerateSection_regenerated e s r st) = originLanguage st"
  by (simp_all add: handleRegenerateSection_regenerated_def regenerate_settle_fields split: prod.splits)

lemma regenerated_content:
  "generatedContent (handleRegenerateSection_regenerated e s (Rejected err) st) = generatedContent st"
  "generatedContent (handleRegenerateSection_regenerated e s (Response t) st)
   = set_section s (if s = Features then clean_features_one (cleanAiOutput (trim t))
                    else cleanAiOutput (trim t)) (generatedContent st)"
  by (simp_all add: handleRegenerateSection_regenerated_def regenerate_settle_fields
      regenerateSectionContent_finish_def Let_def)

lemma regenerated_content_None:
  "generatedContent (handleRegenerateSection_regenerated e s r st) = None \<longleftrightarrow> generatedContent st = None"
  by (cases r) (simp_all add: regenerated_content)

lemma regenerated_rejected_logs:
  "logs (handleRegenerateSection_regenerated e s (Rejected err) st)
   = logs st @ [str ''['' @ timeString e @ str ''] '' @ (str ''[ERROR] ''
       @ (str ''Failed to regenerate '' @ section_name s @ str '': '' @ message err))]"
  by (simp add: handleRegenerateSection_regenerated_def regenerateSectionContent_finish_def
      regenerate_settle_logs addLogs_def)

lemma translate_dropped:
  "productData r = None \<or> generatedContent r = None \<or> s \<in> regeneratingSections r
   \<Longrightarrow> handleTranslateSection e r s l st = (st, [])"
  by (auto simp: handleTranslateSection_def split: option.splits)

lemma translate_open:
  assumes "productData r = Some product" "generatedContent r = Some c"
    "s \<notin> regeneratingSections r"
  shows "handleTranslateSection e r s l st =
     (let st1 = addLog e (str ''[START] Translating section: '' @ section_name s
                               @ str '' to '' @ language_name l @ str ''...'') st;
          st2 = st1\<lparr>regeneratingSections := insert s (regeneratingSections st1)\<rparr>
      in (case map_of c (section_name s) of
                  Some (JStr contentToTranslate) \<Rightarrow>
                    (case translateContent_start contentToTranslate l (sectionContext_of s) of
                       Awaiting ls req \<Rightarrow> (addLogs e ls st2, [(Translated s l, Gateway req)])
                     | Finished ls newContent \<Rightarrow>
                         (handleTranslateSection_settle e s l (Inr newContent) (addLogs e ls st2), []))
                | _ \<Rightarrow>
                    (handleTranslateSection_settle e s l
                       (Inl (Error (str ''No content to translate.''))) st2, [])))"
  using assms by (simp add: handleTranslateSection_def Let_def)

lemma translate_sent:
  assumes "productData r = Some product" "generatedContent r = Some c"
    "s \<notin> regeneratingSections r" "map_of c (section_name s) = Some (JStr t)" "t \<noteq> []"
  shows "snd (handleTranslateSection e r s l st)
         = [(Translated s l, Gateway \<lparr>model = str ''gemini-2.5-flash'',
               prompt = translate_prompt t l (sectionContext_of s), json_schema = False\<rparr>)]"
    and "regeneratingSections (fst (handleTranslateSection e r s l st))
         = insert s (regeneratingSections st)"
    and "sectionLanguages (fst (handleTranslateSection e r s l st)) = sectionLanguages st"
    and "generatedContent (fst (handleTranslateSection e r s l st)) = generatedContent st"
  using assms(4,5)
  by (simp_all add: translate_open[OF assms(1,2,3)] translateContent_start_def Let_def)

lemma translate_empty:
  assumes "productData r = Some product" "generatedContent r = Some c"
    "s \<notin> regeneratingSections r" "map_of c (section_name s) = Some (JStr [])"
  shows "snd (handleTranslateSection e r s l st) = []"
    and "regeneratingSections (fst (handleTranslateSection e r s l st))
         = regeneratingSections st - {s}"
    and "sectionLanguages (fst (handleTranslateSection e r s l st)) = (sectionLanguages st)(s \<mapsto> l)"
  using assms(3,4)
  by (auto simp: translate_open[OF assms(1,2,3)] translateContent_start_def Let_def
      translate_settle_fields)

lemma translate_no_content:
  assumes "productData r = Some product" "generatedContent r = Some c"
    "s \<notin> regeneratingSections r" "\<forall>t. map_of c (section_name s) \<noteq> Some (JStr t)"
  shows "snd (handleTranslateSection e r s l st) = []"
    and "regeneratingSections (fst (handleTranslateSection e r s l st))
         = regeneratingSections st - {s}"
    and "sectionLanguages (fst (handleTranslateSection e r s l st)) = sectionLanguages st"
    and "generatedContent (fst (handleTranslateSection e r s l st)) = generatedContent st"
    and "logs (fst (handleTranslateSection e r s l st))
         = logs st @ [str ''['' @ timeString e @ str ''] '' @ (str ''[START] Translating section: ''
                        @ section_name s @ str '' to '' @ language_name l @ str ''...''),
                      str ''['' @ timeString e @ str ''] '' @ (str ''[ERROR] ''
                        @ (str ''Failed to translate '' @ section_name s @ str '': ''
                           @ str ''No content to translate.''))]"
  using assms(3,4)
  by (auto simp: translate_open[OF assms(1,2,3)] Let_def translate_settle_fields
      translate_settle_logs logs_addLog split: option.splits json.splits)

lemma translate_frame:
  "userInput (fst (handleTranslateSection e r s l st)) = userInput st"
  "isLoading (fst (handleTranslateSection e r s l st)) = isLoading st"
  "error (fst (handleTranslateSection e r s l st)) = error st"
  "productData (fst (handleTranslateSection e r s l st)) = productData st"
  "toastMessage (fst (handleTranslateSection e r s l st)) = toastMessage st"
  "options (fst (handleTranslateSection e r s l st)) = options st"
  "outputLanguage (fst (handleTranslateSection e r s l st)) = outputLanguage st"
  "lastUsedOptions (fst (handleTranslateSection e r s l st)) = lastUsedOptions st"
  "lastUsedOutputLanguage (fst (handleTranslateSection e r s l st)) = lastUsedOutputLanguage st"
  "originLanguage (fst (handleTranslateSection e r s l st)) = originLanguage st"
  by (simp_all add: handleTranslateSection_def translateContent_start_def Let_def
      translate_settle_fields split: option.splits json.splits)

lemma translate_content_None:
  "generatedContent (fst (handleTranslateSection e r s l st)) = None \<longleftrightarrow> generatedContent st = None"
  by (auto simp: handleTranslateSection_def translateContent_start_def Let_def
      translate_settle_fields split: option.splits json.splits)

lemma translate_calls:
  "snd (handleTranslateSection e r s l st) = [] \<and> \<not> translate_sends s r
   \<or> translate_sends s r
     \<and> (\<exists>req. snd (handleTranslateSection e r s l st) = [(Translated s l, Gateway req)])"
  by (auto simp: handleTranslateSection_def translateContent_start_def Let_def
      translate_sends_def split: option.splits json.splits)

lemma translate_pending:
  "translate_sends s r \<Longrightarrow>
     regeneratingSections (fst (handleTranslateSection e r s l st))
     = insert s (regeneratingSections st)"
  by (auto simp: handleTranslateSection_def translateContent_start_def Let_def
      translate_settle_fields translate_sends_def split: option.splits json.splits)

lemma translated_fields:
  "userInput (handleTranslateSection_translated e s l r st) = userInput st"
  "isLoading (handleTranslateSection_translated e s l r st) = isLoading st"
  "error (handleTranslateSection_translated e s l r st) = error st"
  "productData (handleTranslateSection_translated e s l r st) = productData st"
  "regeneratingSections (handleTranslateSection_translated e s l r st) = regeneratingSections st - {s}"
  "toastMessage (handleTranslateSection_translated e s l r st) = toastMessage st"
  "options (handleTranslateSection_translated e s l r st) = options st"
  "outputLanguage (handleTranslateSection_translated e s l r st) = outputLanguage st"
  "lastUsedOptions (handleTranslateSection_translated e s l r st) = lastUsedOptions st"
  "lastUsedOutputLanguage (handleTranslateSection_translated e s l r st) = lastUsedOutputLanguage st"
  "originLanguage (handleTranslateSection_translated e s l r st) = originLanguage st"
  by (simp_all add: handleTranslateSection_translated_def translate_settle_fields split: prod.splits)

lemma translated_content:
  "generatedContent (handleTranslateSection_translated e s l (Rejected err) st) = generatedContent st"
  "sectionLanguages (handleTranslateSection_translated e s l (Rejected err) st) = sectionLanguages st"
  "generatedContent (handleTranslateSection_translated e s l (Response t) st)
   = set_section s (cleanAiOutput (trim t)) (generatedContent st)"
  "sectionLanguages (handleTranslateSection_translated e s l (Response t) st)
   = (sectionLanguages st)(s \<mapsto> l)"
  by (simp_all add: handleTranslateSection_translated_def translate_settle_fields
      translateContent_finish_def Let_def)

lemma translated_content_None:
  "generatedContent (handleTranslateSection_translated e s l r st) = None \<longleftrightarrow> generatedContent st = None"
  by (cases r) (simp_all add: translated_content)

lemma translated_rejected_logs:
  "logs (handleTranslateSection_translated e s l (Rejected err) st)
   = logs st @ [str ''['' @ timeString e @ str ''] '' @ (str ''[TRANSLATE-ERROR] Failed to translate: ''
                  @ message err),
                str ''['' @ timeString e @ str ''] '' @ (str ''[ERROR] ''
       @ (str ''Failed to translate '' @ section_name s @ str '': ''
          @ (str ''AI failed to translate the content for '' @ sectionContext_of s @ str ''.'')))]"
  by (simp add: handleTranslateSection_translated_def translateContent_finish_def Let_def
      translate_settle_logs logs_addLogs)

lemma regenerate_pending:
  "regenerate_sends s r \<Longrightarrow>
     regeneratingSections (fst (handleRegenerateSection e r s st))
     = insert s (regeneratingSections st)"
  by (auto simp: handleRegenerateSection_def regenerateSectionContent_start_def Let_def
      regenerate_settle_fields regenerate_sends_def split: option.splits)

lemma regenerate_calls:
  "snd (handleRegenerateSection e r s st) = [] \<and> \<not> regenerate_sends s r
   \<or> regenerate_sends s r
     \<and> (\<exists>req. snd (handleRegenerateSection e r s st) = [(Regenerated s, Gateway req)])"
  by (auto simp: handleRegenerateSection_def regenerateSectionContent_start_def Let_def
      regenerate_sends_def split: option.splits)

lemma regenerate_content_None:
  "generatedContent (fst (handleRegenerateSection e r s st)) = None \<longleftrightarrow> generatedContent st = None"
  by (auto simp: handleRegenerateSection_def regenerateSectionContent_start_def Let_def
      regenerate_settle_fields split: option.splits)

lemma options_effect_closed:
  "generatedContent r = None \<or> lastUsedOptions r = None \<or> isLoading r
   \<or> regeneratingSections r \<noteq> {} \<Longrightarrow> options_effect e r st = (st, [])"
  by (auto simp: options_effect_def split: option.splits)


lemma options_effect_fires:
  assumes "generatedContent r = Some c" "lastUsedOptions r = Some lastUsed" "\<not> isLoading r"
    "regeneratingSections r = {}"
    "tone (options r) \<noteq> tone lastUsed \<or> length_opt (options r) \<noteq> length_opt lastUsed
     \<or> emojis (options r) \<noteq> emojis lastUsed"
  shows "options_effect e r st
         = handleRegenerateSection e r Description (st\<lparr>lastUsedOptions := Some (options r)\<rparr>)"
  using assms by (auto simp: options_effect_def split: prod.splits)

lemma options_effect_cases:
  "options_effect e r st = (st, [])
   \<or> options_effect e r st
     = handleRegenerateSection e r Description (st\<lparr>lastUsedOptions := Some (options r)\<rparr>)"
  by (auto simp: options_effect_def split: option.splits prod.splits)

lemma options_effect_languages: "sectionLanguages (fst (options_effect e r st)) = sectionLanguages st"
  using options_effect_cases[of e r st] by (auto simp: regenerate_frame)

lemma language_effect_closed:
  "generatedContent r = None \<or> lastUsedOptions r = None \<or> lastUsedOutputLanguage r = None
   \<or> isLoading r \<or> regeneratingSections r \<noteq> {}
   \<or> lastUsedOutputLanguage r = Some (outputLanguage r)
   \<Longrightarrow> language_effect e r st = (st, [])"
  by (auto simp: language_effect_def split: option.splits)

lemma effects_without_content: "generatedContent r = None \<Longrightarrow> effects e r = (r, [])"
  by (simp add: effects_def options_effect_closed language_effect_closed)

text \<open>
  C7. Regeneration never writes the language tags. The map of section languages is
  the same after \<^verbatim>\<open>handleRegenerateSection\<close> has started, after its call has settled
  either way, and after the options effect has run. A call that is sent asks for the
  section in the language the map gives it (English when it gives none), and a
  settled answer replaces the content of the section, and of that key only, with the
  cleaned text.
\<close>

theorem regenerate_keeps_languages:
  "sectionLanguages (fst (handleRegenerateSection e r s st)) = sectionLanguages st
   \<and> sectionLanguages (handleRegenerateSection_regenerated e s res st) = sectionLanguages st
   \<and> sectionLanguages (fst (options_effect e r st)) = sectionLanguages st
   \<and> (productData r = Some product \<and> s \<notin> regeneratingSections r \<and> s \<noteq> Photo \<longrightarrow>
        snd (handleRegenerateSection e r s st)
        = [(Regenerated s, Gateway \<lparr>model = str ''gemini-2.5-flash'',
              prompt = generatePrompt product (options r)
                         [(s, case sectionLanguages r s of Some l \<Rightarrow> l | None \<Rightarrow> English)],
              json_schema = False\<rparr>)])
   \<and> (generatedContent st = Some c \<longrightarrow>
        (\<exists>c'. generatedContent (handleRegenerateSection_regenerated e s (Response t) st) = Some c'
           \<and> map_of c' = (map_of c)(section_name s \<mapsto>
                JStr (if s = Features then clean_features_one (cleanAiOutput (trim t))
                      else cleanAiOutput (trim t)))))"
proof -
  have a: "productData r = Some product \<Longrightarrow> s \<notin> regeneratingSections r \<Longrightarrow> s \<noteq> Photo \<Longrightarrow>
        snd (handleRegenerateSection e r s st)
        = [(Regenerated s, Gateway \<lparr>model = str ''gemini-2.5-flash'',
              prompt = generatePrompt product (options r)
                         [(s, case sectionLanguages r s of Some l \<Rightarrow> l | None \<Rightarrow> English)],
              json_schema = False\<rparr>)]"
    using regenerate_sent(1)[of r product s e st] by (simp add: language_for_def)
  have b: "generatedContent st = Some c \<Longrightarrow>
        (\<exists>c'. generatedContent (handleRegenerateSection_regenerated e s (Response t) st) = Some c'
           \<and> map_of c' = (map_of c)(section_name s \<mapsto>
                JStr (if s = Features then clean_features_one (cleanAiOutput (trim t))
                      else cleanAiOutput (trim t))))"
    by (simp add: regenerated_content set_section_Some update_conv')
  from a b show ?thesis
    by (simp add: regenerate_frame regenerated_fields options_effect_languages)
qed

theorem regenerate_keeps_languages_witness:
  "sectionLanguages (handleRegenerateSection_regenerated env0 Description
       (Response (str ''New text'')) (ready_state\<lparr>sectionLanguages := [Description \<mapsto> Hebrew]\<rparr>))
     = [Description \<mapsto> Hebrew]
   \<and> snd (handleRegenerateSection env0 (ready_state\<lparr>sectionLanguages := [Description \<mapsto> Hebrew]\<rparr>)
       Description (ready_state\<lparr>sectionLanguages := [Description \<mapsto> Hebrew]\<rparr>))
     = [(Regenerated Description, Gateway \<lparr>model = str ''gemini-2.5-flash'',
              prompt = generatePrompt widget defaultOptions [(Description, Hebrew)],
              json_schema = False\<rparr>)]
   \<and> map_of (the (generatedContent (handleRegenerateSection_regenerated env0 Description
       (Response (str ''New text'')) (ready_state\<lparr>sectionLanguages := [Description \<mapsto> Hebrew]\<rparr>))))
        (str ''description'') = Some (JStr (str ''New text''))"
proof -
  let ?st = "ready_state\<lparr>sectionLanguages := [Description \<mapsto> Hebrew]\<rparr>"
  have h: "productData ?st = Some widget \<and> Description \<notin> regeneratingSections ?st
           \<and> Description \<noteq> Photo"
    by (simp add: ready_state_def initial_state_def)
  have g: "generatedContent ?st = Some [(str ''header'', JStr (str ''H'')),
          (str ''description'', JStr (str ''D'')), (str ''features'', JStr ([8226] @ str '' F'')),
          (str ''photo'', JStr (str ''https://x/img.png''))]"
    by (simp add: ready_state_def)
  have o: "options ?st = defaultOptions" by (simp add: ready_state_def initial_state_def)
  have cl: "cleanAiOutput (trim (str ''New text'')) = str ''New text''"
    by (simp add: cleanAiOutput_def Let_def introsToRemove_def str_def trim_def is_ws_def
      is_lt_def match_intro_at_def canon_def)
  from regenerate_keeps_languages[where e = env0 and s = Description and st = ?st and r = ?st
      and res = "Response (str ''New text'')" and product = widget and t = "str ''New text''"
      and c = "[(str ''header'', JStr (str ''H'')),
          (str ''description'', JStr (str ''D'')), (str ''features'', JStr ([8226] @ str '' F'')),
          (str ''photo'', JStr (str ''https://x/img.png''))]"] h g
  show ?thesis by (auto simp: o cl section_name_def)
qed

section \<open>The effects of a render\<close>

lemma translate_fold_frame:
  assumes "\<And>s cur. f (fst (handleTranslateSection e r s l cur)) = f cur"
  shows "f (fst (fold (\<lambda>section (cur, reqs).
                   if cond section then
                     (case handleTranslateSection e r section l cur of
                        (cur, new) \<Rightarrow> (cur, reqs @ new))
                   else (cur, reqs)) secs (st, reqs))) = f st"
proof (induction secs arbitrary: st reqs)
  case Nil
  then show ?case by simp
next
  case (Cons a secs)
  show ?case
  proof (cases "cond a")
    case False
    with Cons show ?thesis by simp
  next
    case True
    obtain st' new where h: "handleTranslateSection e r a l st = (st', new)"
      by (cases "handleTranslateSection e r a l st")
    from assms[of a st] h have "f st' = f st" by simp
    with Cons.IH[of st' "reqs @ new"] True h show ?thesis by simp
  qed
qed

lemma translate_fold_calls:
  assumes "\<And>s cur. filter p (snd (handleTranslateSection e r s l cur)) = []"
  shows "filter p (snd (fold (\<lambda>section (cur, reqs).
                   if cond section then
                     (case handleTranslateSection e r section l cur of
                        (cur, new) \<Rightarrow> (cur, reqs @ new))
                   else (cur, reqs)) secs (st, reqs))) = filter p reqs"
proof (induction secs arbitrary: st reqs)
  case Nil
  then show ?case by simp
next
  case (Cons a secs)
  show ?case
  proof (cases "cond a")
    case False
    with Cons show ?thesis by simp
  next
    case True
    obtain st' new where h: "handleTranslateSection e r a l st = (st', new)"
      by (cases "handleTranslateSection e r a l st")
    from assms[of a st] h have "filter p new = []" by simp
    with Cons.IH[of st' "reqs @ new"] True h show ?thesis by simp
  qed
qed

lemma language_effect_fires:
  assumes "generatedContent r = Some c" "lastUsedOptions r = Some lu"
    "lastUsedOutputLanguage r = Some lo" "\<not> isLoading r" "regeneratingSections r = {}"
    "outputLanguage r \<noteq> lo"
  shows "language_effect e r st
        = fold (\<lambda>section (cur, reqs).
                  if sectionLanguages r section
                     \<noteq> Some (case outputLanguage r of OutAuto \<Rightarrow> originLanguage r | Out l \<Rightarrow> l)
                  then
                    (case handleTranslateSection e r section
                            (case outputLanguage r of OutAuto \<Rightarrow> originLanguage r | Out l \<Rightarrow> l)
                            cur of
                       (cur, new) \<Rightarrow> (cur, reqs @ new))
                  else (cur, reqs))
            ([Header, Description, Features]
             @ (case map_of c (str ''reviews'') of
                  Some v \<Rightarrow> if truthy v then [Reviews] else []
                | None \<Rightarrow> []))
            ((addLog e (str ''[SYSTEM] Output language changed to: ''
                               @ output_language_name (outputLanguage r)
                               @ str ''. Updating content...'') st)
               \<lparr>lastUsedOutputLanguage := Some (outputLanguage r)\<rparr>, [])"
  by (simp only: language_effect_def Let_def assms option.case prod.case simp_thms if_False if_True)

lemma language_effect_cases:
  "language_effect e r st = (st, [])
   \<or> (\<exists>cond secs l m.
         language_effect e r st
         = fold (\<lambda>section (cur, reqs).
                   if cond section then
                     (case handleTranslateSection e r section l cur of
                        (cur, new) \<Rightarrow> (cur, reqs @ new))
                   else (cur, reqs)) secs
             ((addLog e m st)\<lparr>lastUsedOutputLanguage := Some (outputLanguage r)\<rparr>, []))"
proof (cases "\<exists>c lu lo. generatedContent r = Some c \<and> lastUsedOptions r = Some lu
                 \<and> lastUsedOutputLanguage r = Some lo \<and> \<not> isLoading r
                 \<and> regeneratingSections r = {} \<and> outputLanguage r \<noteq> lo")
  case False
  then have "language_effect e r st = (st, [])"
    by (auto simp: language_effect_def split: option.splits)
  then show ?thesis by simp
next
  case True
  then obtain c lu lo where g: "generatedContent r = Some c" "lastUsedOptions r = Some lu"
    "lastUsedOutputLanguage r = Some lo" "\<not> isLoading r" "regeneratingSections r = {}"
    "outputLanguage r \<noteq> lo" by blast
  show ?thesis
    apply (rule disjI2)
    apply (rule exI[where x = "\<lambda>section. sectionLanguages r section
               \<noteq> Some (case outputLanguage r of OutAuto \<Rightarrow> originLanguage r | Out l \<Rightarrow> l)"])
    apply (rule exI)
    apply (rule exI[where x = "case outputLanguage r of OutAuto \<Rightarrow> originLanguage r | Out l \<Rightarrow> l"])
    apply (rule exI)
    apply (rule language_effect_fires[OF g])
    done
qed

lemma language_effect_frame:
  "options (fst (language_effect e r st)) = options st"
  "lastUsedOptions (fst (language_effect e r st)) = lastUsedOptions st"
  "isLoading (fst (language_effect e r st)) = isLoading st"
  "productData (fst (language_effect e r st)) = productData st"
  "generatedContent (fst (language_effect e r st)) = None \<longleftrightarrow> generatedContent st = None"
proof -
  have *: "f (fst (language_effect e r st)) = f st"
    if "\<And>s l cur. f (fst (handleTranslateSection e r s l cur)) = f cur"
      and "\<And>m v. f ((addLog e m st)\<lparr>lastUsedOutputLanguage := v\<rparr>) = f st"
    for f :: "app_state \<Rightarrow> 'a"
    using language_effect_cases[of e r st] translate_fold_frame[of f e r, OF that(1)] that(2)
    by auto
  show "options (fst (language_effect e r st)) = options st"
    by (rule *) (simp_all add: translate_frame)
  show "lastUsedOptions (fst (language_effect e r st)) = lastUsedOptions st"
    by (rule *) (simp_all add: translate_frame)
  show "isLoading (fst (language_effect e r st)) = isLoading st"
    by (rule *) (simp_all add: translate_frame)
  show "productData (fst (language_effect e r st)) = productData st"
    by (rule *) (simp_all add: translate_frame)
  show "generatedContent (fst (language_effect e r st)) = None \<longleftrightarrow> generatedContent st = None"
    using *[of "\<lambda>x. generatedContent x = None"] by (simp add: translate_content_None)
qed



lemma effects_split:
  "fst (effects e r) = fst (language_effect e r (fst (options_effect e r r)))"
  "snd (effects e r)
   = snd (options_effect e r r) @ snd (language_effect e r (fst (options_effect e r r)))"
  by (simp_all add: effects_def split: prod.splits)

section \<open>The options effect after a generation\<close>

lemma handleGenerate_sent:
  assumes "trim (userInput st) \<noteq> []"
  shows "snd (handleGenerate e st)
         = [(Scraped (options st) (outputLanguage st),
             Extract (detectInputType (userInput st)) (userInput st)
               (if detectInputType (userInput st) = ModeAuto then userInput st
                else str ''manual-input''))]"
    and "isLoading (fst (handleGenerate e st))"
    and "generatedContent (fst (handleGenerate e st)) = None"
    and "productData (fst (handleGenerate e st)) = None"
    and "error (fst (handleGenerate e st)) = None"
    and "lastUsedOptions (fst (handleGenerate e st)) = None"
    and "lastUsedOutputLanguage (fst (handleGenerate e st)) = None"
    and "regeneratingSections (fst (handleGenerate e st)) = regeneratingSections st"
    and "options (fst (handleGenerate e st)) = options st"
    and "outputLanguage (fst (handleGenerate e st)) = outputLanguage st"
    and "userInput (fst (handleGenerate e st)) = userInput st"
    and "sectionLanguages (fst (handleGenerate e st)) = sectionLanguages st"
    and "toastMessage (fst (handleGenerate e st)) = toastMessage st"
  using assms by (simp_all add: handleGenerate_def Let_def)

lemma processScrapedData_fields:
  "\<exists>req. snd (processScrapedData e opts outLang d st) = [(GeneratedAll opts outLang d, Gateway req)]"
  "isLoading (fst (processScrapedData e opts outLang d st)) = isLoading st"
  "generatedContent (fst (processScrapedData e opts outLang d st)) = generatedContent st"
  "productData (fst (processScrapedData e opts outLang d st)) = Some d"
  "error (fst (processScrapedData e opts outLang d st)) = error st"
  "lastUsedOptions (fst (processScrapedData e opts outLang d st)) = lastUsedOptions st"
  "lastUsedOutputLanguage (fst (processScrapedData e opts outLang d st)) = lastUsedOutputLanguage st"
  "regeneratingSections (fst (processScrapedData e opts outLang d st)) = regeneratingSections st"
  "options (fst (processScrapedData e opts outLang d st)) = options st"
  "outputLanguage (fst (processScrapedData e opts outLang d st)) = outputLanguage st"
  "userInput (fst (processScrapedData e opts outLang d st)) = userInput st"
  "toastMessage (fst (processScrapedData e opts outLang d st)) = toastMessage st"
  by (simp_all add: processScrapedData_def Let_def generateAllContent_start_def)

lemma scraped_ok_fields:
  "\<exists>req. snd (handleGenerate_scraped e opts outLang ls (Inr d) st)
          = [(GeneratedAll opts outLang d, Gateway req)]"
  "isLoading (fst (handleGenerate_scraped e opts outLang ls (Inr d) st)) = isLoading st"
  "generatedContent (fst (handleGenerate_scraped e opts outLang ls (Inr d) st)) = generatedContent st"
  "productData (fst (handleGenerate_scraped e opts outLang ls (Inr d) st)) = Some d"
  "error (fst (handleGenerate_scraped e opts outLang ls (Inr d) st)) = error st"
  "lastUsedOptions (fst (handleGenerate_scraped e opts outLang ls (Inr d) st)) = lastUsedOptions st"
  "lastUsedOutputLanguage (fst (handleGenerate_scraped e opts outLang ls (Inr d) st))
   = lastUsedOutputLanguage st"
  "regeneratingSections (fst (handleGenerate_scraped e opts outLang ls (Inr d) st))
   = regeneratingSections st"
  "options (fst (handleGenerate_scraped e opts outLang ls (Inr d) st)) = options st"
  "outputLanguage (fst (handleGenerate_scraped e opts outLang ls (Inr d) st)) = outputLanguage st"
  "userInput (fst (handleGenerate_scraped e opts outLang ls (Inr d) st)) = userInput st"
  "toastMessage (fst (handleGenerate_scraped e opts outLang ls (Inr d) st)) = toastMessage st"
  using processScrapedData_fields(1)[of e opts outLang d]
  by (simp_all add: handleGenerate_scraped_def Let_def processScrapedData_fields)

lemma scraped_failed:
  "handleGenerate_scraped e opts outLang ls (Inl err) st
   = (handleGenerate_catch e err (addLogs e ls st), [])"
  by (simp add: handleGenerate_scraped_def Let_def)

lemma clear_fields:
  "userInput (handleClear e st) = []"
  "generatedContent (handleClear e st) = None"
  "productData (handleClear e st) = None"
  "error (handleClear e st) = None"
  "isLoading (handleClear e st) = isLoading st"
  "regeneratingSections (handleClear e st) = regeneratingSections st"
  "lastUsedOptions (handleClear e st) = lastUsedOptions st"
  "lastUsedOutputLanguage (handleClear e st) = lastUsedOutputLanguage st"
  "options (handleClear e st) = options st"
  "outputLanguage (handleClear e st) = outputLanguage st"
  "toastMessage (handleClear e st) = toastMessage st"
  "sectionLanguages (handleClear e st) = sectionLanguages st"
  by (simp_all add: handleClear_def Let_def)

lemma reset_fields:
  "generatedContent (handleReset e st) = None"
  "productData (handleReset e st) = None"
  "isLoading (handleReset e st) = isLoading st"
  "regeneratingSections (handleReset e st) = regeneratingSections st"
  by (simp_all add: handleReset_def Let_def clear_fields)

lemma generated_success_more:
  assumes "snd (generateAllContent_finish (JSON_parse e) r) = Inr c"
  shows "options (handleGenerate_generated e opts outLang product r st) = options st"
    and "outputLanguage (handleGenerate_generated e opts outLang product r st) = outputLanguage st"
    and "userInput (handleGenerate_generated e opts outLang product r st) = userInput st"
    and "toastMessage (handleGenerate_generated e opts outLang product r st) = toastMessage st"
    and "sectionLanguages (handleGenerate_generated e opts outLang product r st) = sectionLanguages st"
  using assms by (cases "generateAllContent_finish (JSON_parse e) r";
      simp add: handleGenerate_generated_def Let_def)+





section \<open>Failures and where they are reported\<close>

text \<open>
  C5, amended. A failing full generation, at the extraction or at the generation,
  is written to the log with its message and the same message becomes the error
  shown to the user. A failing regeneration or translation of a section is written
  to the log with its message and nothing else records it: the error shown and the
  toast are what they were.
\<close>

theorem failures_are_reported:
  "(error (fst (handleGenerate_scraped e opts outLang ls (Inl err) st))
      = Some (if message err = [] then str ''An unexpected error occurred.'' else message err)
    \<and> last (logs (fst (handleGenerate_scraped e opts outLang ls (Inl err) st)))
      = str ''['' @ timeString e @ str ''] '' @ (str ''[ERROR] Generation failed: ''
          @ (if message err = [] then str ''An unexpected error occurred.'' else message err)))
   \<and> (snd (generateAllContent_finish (JSON_parse e) r) = Inl err \<longrightarrow>
        error (handleGenerate_generated e opts outLang product r st)
        = Some (if message err = [] then str ''An unexpected error occurred.'' else message err)
      \<and> last (logs (handleGenerate_generated e opts outLang product r st))
        = str ''['' @ timeString e @ str ''] '' @ (str ''[ERROR] Generation failed: ''
          @ (if message err = [] then str ''An unexpected error occurred.'' else message err)))
   \<and> (last (logs (handleRegenerateSection_regenerated e s (Rejected err) st))
        = str ''['' @ timeString e @ str ''] '' @ (str ''[ERROR] ''
            @ (str ''Failed to regenerate '' @ section_name s @ str '': '' @ message err))
      \<and> error (handleRegenerateSection_regenerated e s (Rejected err) st) = error st
      \<and> toastMessage (handleRegenerateSection_regenerated e s (Rejected err) st) = toastMessage st)
   \<and> (logs (handleTranslateSection_translated e s l (Rejected err) st)
        = logs st @ [str ''['' @ timeString e @ str ''] ''
                       @ (str ''[TRANSLATE-ERROR] Failed to translate: '' @ message err),
                     str ''['' @ timeString e @ str ''] '' @ (str ''[ERROR] ''
                       @ (str ''Failed to translate '' @ section_name s @ str '': ''
                          @ (str ''AI failed to translate the content for ''
                             @ sectionContext_of s @ str ''.'')))]
      \<and> error (handleTranslateSection_translated e s l (Rejected err) st) = error st
      \<and> toastMessage (handleTranslateSection_translated e s l (Rejected err) st) = toastMessage st)"
  by (simp add: scraped_failed catch_fields generated_failure regenerated_rejected_logs
      regenerated_fields translated_rejected_logs translated_fields)

theorem failures_are_reported_witness:
  "error (handleGenerate_generated env0 defaultOptions OutAuto widget (Rejected (Error (str ''quota'')))
            (initial_state\<lparr>isLoading := True\<rparr>)) = Some (str ''quota'')
   \<and> last (logs (handleGenerate_generated env0 defaultOptions OutAuto widget
                    (Rejected (Error (str ''quota''))) (initial_state\<lparr>isLoading := True\<rparr>)))
     = str ''['' @ str ''10:00:00'' @ str ''] '' @ (str ''[ERROR] Generation failed: '' @ str ''quota'')"
proof -
  have f: "snd (generateAllContent_finish (JSON_parse env0) (Rejected (Error (str ''quota''))))
           = Inl (Error (str ''quota''))"
    by (simp add: finish_rejected)
  have n: "str ''quota'' \<noteq> []" by (simp add: str_def)
  from failures_are_reported[where e = env0 and r = "Rejected (Error (str ''quota''))"
      and err = "Error (str ''quota'')" and opts = defaultOptions and outLang = OutAuto
      and product = widget and st = "initial_state\<lparr>isLoading := True\<rparr>"] f n
  show ?thesis by (simp add: env0_def)
qed

text \<open>
  The claim as it stands fails for a section: a rejected regeneration of the header
  leaves the error empty and the toast empty and is found in the log only.
\<close>

theorem section_failure_only_logged:
  "error (handleRegenerateSection_regenerated env0 Header (Rejected (Error (str ''quota'')))
            (ready_state\<lparr>regeneratingSections := {Header}\<rparr>)) = None
   \<and> toastMessage (handleRegenerateSection_regenerated env0 Header (Rejected (Error (str ''quota'')))
            (ready_state\<lparr>regeneratingSections := {Header}\<rparr>)) = []
   \<and> logs (handleRegenerateSection_regenerated env0 Header (Rejected (Error (str ''quota'')))
            (ready_state\<lparr>regeneratingSections := {Header}\<rparr>))
     = [str ''['' @ str ''10:00:00'' @ str ''] '' @ (str ''[ERROR] ''
            @ (str ''Failed to regenerate '' @ str ''header'' @ str '': '' @ str ''quota''))]"
  by (simp add: regenerated_fields regenerated_rejected_logs ready_state_def initial_state_def
      env0_def section_name_def)

section \<open>The invariant of the event loop\<close>

lemma busy_sections_simps [simp]:
  "busy_sections [] = []"
  "busy_sections (a @ b) = busy_sections a @ busy_sections b"
  "busy_sections ((Regenerated s, x) # ws) = s # busy_sections ws"
  "busy_sections ((Translated s l, x) # ws) = s # busy_sections ws"
  "busy_sections ((Scraped opts outLang, x) # ws) = busy_sections ws"
  "busy_sections ((GeneratedAll opts outLang d, x) # ws) = busy_sections ws"
  by (simp_all add: busy_sections_def map_filter_def)

lemma generating_simps [simp]:
  "generating (Regenerated s, x) = False"
  "generating (Translated s l, x) = False"
  "generating (Scraped opts outLang, x) = True"
  "generating (GeneratedAll opts outLang d, x) = True"
  by (simp_all add: generating_def)

lemma take_awaited_split:
  "take_awaited c ws = Some rest \<Longrightarrow> \<exists>pre x post. ws = pre @ (c, x) # post \<and> rest = pre @ post"
proof (induction ws arbitrary: rest)
  case Nil
  then show ?case by simp
next
  case (Cons a ws)
  show ?case
  proof (cases "fst a = c")
    case True
    with Cons.prems have "rest = ws" by simp
    moreover from True have "a = (c, snd a)" by (cases a) simp
    ultimately have "a # ws = [] @ (c, snd a) # ws \<and> rest = [] @ ws" by simp
    then show ?thesis by blast
  next
    case False
    with Cons.prems obtain r where r: "take_awaited c ws = Some r" and "rest = a # r"
      by (auto split: option.splits)
    from Cons.IH[OF r] obtain pre x post where "ws = pre @ (c, x) # post" "r = pre @ post"
      by blast
    with \<open>rest = a # r\<close> have "a # ws = (a # pre) @ (c, x) # post \<and> rest = (a # pre) @ post"
      by simp
    then show ?thesis by blast
  qed
qed

lemma coherent_initial: "coherent initial_state []"
  by (simp add: coherent_def initial_state_def)

lemma coherent_quiet:
  "coherent st ws \<Longrightarrow> quiet st x \<Longrightarrow> coherent (fst x) (ws @ snd x)"
  by (simp add: coherent_def quiet_def)

lemma quiet_trans:
  "quiet st x \<Longrightarrow> quiet (fst x) y \<Longrightarrow> quiet st (fst y, snd x @ snd y)"
  by (simp add: quiet_def)

lemma quiet_regenerate: "quiet st (handleRegenerateSection e r s st)"
  using regenerate_calls[of e r s st]
  by (auto simp: quiet_def regenerate_frame regenerate_content_None)

lemma quiet_translate: "quiet st (handleTranslateSection e r s l st)"
  using translate_calls[of e r s l st]
  by (auto simp: quiet_def translate_frame translate_content_None)

lemma quiet_options_effect: "quiet st (options_effect e r st)"
proof -
  from options_effect_cases[of e r st] show ?thesis
  proof
    assume "options_effect e r st = (st, [])"
    then show ?thesis by (simp add: quiet_def)
  next
    assume o: "options_effect e r st
          = handleRegenerateSection e r Description (st\<lparr>lastUsedOptions := Some (options r)\<rparr>)"
    from quiet_regenerate[of "st\<lparr>lastUsedOptions := Some (options r)\<rparr>" e r Description]
    show ?thesis by (simp add: o quiet_def)
  qed
qed

lemma quiet_language_effect: "quiet st (language_effect e r st)"
proof -
  have "filter generating (snd (handleTranslateSection e r s l cur)) = []" for s l cur
    using quiet_translate[of cur e r s l] by (simp add: quiet_def)
  then have "filter generating (snd (language_effect e r st)) = []"
    using language_effect_cases[of e r st] translate_fold_calls[of generating e r]
    by auto
  then show ?thesis by (simp add: quiet_def language_effect_frame)
qed

lemma quiet_effects: "quiet r (effects e r)"
proof -
  have "effects e r = (fst (language_effect e r (fst (options_effect e r r))),
          snd (options_effect e r r) @ snd (language_effect e r (fst (options_effect e r r))))"
    by (simp add: effects_def split: prod.splits)
  with quiet_trans[OF quiet_options_effect quiet_language_effect, of r e r e r]
  show ?thesis by simp
qed

lemma generated_always:
  "isLoading (handleGenerate_generated e opts outLang d r st) = False"
  "regeneratingSections (handleGenerate_generated e opts outLang d r st) = regeneratingSections st"
  by (cases "snd (generateAllContent_finish (JSON_parse e) r)";
      simp add: generated_failure generated_success catch_fields)+

lemma generated_failed_content:
  "isl (snd (generateAllContent_finish (JSON_parse e) r)) \<Longrightarrow>
     generatedContent (handleGenerate_generated e opts outLang d r st) = generatedContent st"
  by (cases "snd (generateAllContent_finish (JSON_parse e) r)")
    (simp_all add: generated_failure catch_fields)

lemma coherent_removed:
  assumes "coherent st (pre @ (c, x) # post)"
  shows "section_of c = None \<Longrightarrow> isLoading st \<and> generatedContent st = None
            \<and> filter generating (pre @ post) = []"
    and "section_of c = Some s \<Longrightarrow>
            filter generating (pre @ post) = filter generating (pre @ (c, x) # post)"
proof -
  assume n: "section_of c = None"
  then have g: "generating (c, x)" by (simp add: generating_def)
  with assms have "filter generating pre = [] \<and> filter generating post = []"
    by (auto simp: coherent_def)
  moreover from assms g have "isLoading st" by (simp add: coherent_def)
  moreover from assms this have "generatedContent st = None" by (simp add: coherent_def)
  ultimately show "isLoading st \<and> generatedContent st = None
            \<and> filter generating (pre @ post) = []" by simp
next
  assume n: "section_of c = Some s"
  then have "\<not> generating (c, x)" by (simp add: generating_def)
  then show "filter generating (pre @ post) = filter generating (pre @ (c, x) # post)" by simp
qed

lemma coherent_settle:
  assumes "coherent st ws" "take_awaited c ws = Some rest" "resume e c out st = Some r"
  shows "coherent (fst r) (rest @ snd r)"
proof -
  from take_awaited_split[OF assms(2)] obtain pre x post
    where ws: "ws = pre @ (c, x) # post" and rest: "rest = pre @ post" by blast
  note co = assms(1)[unfolded ws]
  show ?thesis
  proof (cases c)
    case (Scraped opts outLang)
    with assms(3) obtain ls res where out: "out = Extracted ls res"
      and r: "r = handleGenerate_scraped e opts outLang ls res st"
      by (cases out) auto
    from coherent_removed(1)[OF co] Scraped
    have h: "isLoading st" "generatedContent st = None" "filter generating (pre @ post) = []"
      by simp_all
    show ?thesis
    proof (cases res)
      case (Inl err)
      then show ?thesis using co h
        by (simp add: r rest scraped_failed coherent_def catch_fields)
    next
      case (Inr d)
      obtain req where "snd (handleGenerate_scraped e opts outLang ls (Inr d) st)
          = [(GeneratedAll opts outLang d, Gateway req)]"
        using scraped_ok_fields(1) by blast
      then show ?thesis using co h Inr
        by (simp add: r rest coherent_def scraped_ok_fields)
    qed
  next
    case (GeneratedAll opts outLang d)
    with assms(3) obtain res where out: "out = Answered res"
      and r: "r = (handleGenerate_generated e opts outLang d res st, [])"
      by (cases out) auto
    from coherent_removed(1)[OF co] GeneratedAll
    have h: "isLoading st" "generatedContent st = None" "filter generating (pre @ post) = []"
      by simp_all
    show ?thesis using co h by (simp add: r rest coherent_def generated_always)
  next
    case (Regenerated s)
    with assms(3) obtain res where out: "out = Answered res"
      and r: "r = (handleRegenerateSection_regenerated e s res st, [])"
      by (cases out) auto
    from coherent_removed(2)[OF co, of s] Regenerated
    have h: "filter generating (pre @ post) = filter generating (pre @ (c, x) # post)" by simp
    show ?thesis using co h
      by (simp add: r rest coherent_def regenerated_fields regenerated_content_None)
  next
    case (Translated s l)
    with assms(3) obtain res where out: "out = Answered res"
      and r: "r = (handleTranslateSection_translated e s l res st, [])"
      by (cases out) auto
    from coherent_removed(2)[OF co, of s] Translated
    have h: "filter generating (pre @ post) = filter generating (pre @ (c, x) # post)" by simp
    show ?thesis using co h
      by (simp add: r rest coherent_def translated_fields translated_content_None)
  qed
qed

lemma coherent_step:
  assumes "coherent (app sys) (inflight sys)"
  shows "coherent (app (step e ev sys)) (inflight (step e ev sys))"
proof (cases ev)
  case (TypeInput t)
  with assms show ?thesis by (simp add: coherent_def)
next
  case PressGenerate
  show ?thesis
  proof (cases "isGenerateDisabled (app sys)")
    case True
    with assms PressGenerate show ?thesis by simp
  next
    case False
    then have t: "trim (userInput (app sys)) \<noteq> []" and l: "\<not> isLoading (app sys)"
      by (simp_all add: isGenerateDisabled_def)
    from assms l have "filter generating (inflight sys) = []" by (simp add: coherent_def)
    with assms False PressGenerate show ?thesis
      by (simp add: dispatch_def coherent_def handleGenerate_sent[OF t])
  qed
next
  case PressClear
  with assms show ?thesis by (simp add: coherent_def clear_fields)
next
  case PressReset
  with assms show ?thesis by (simp add: coherent_def reset_fields)
next
  case (ChooseTone v)
  with assms show ?thesis by (simp add: coherent_def)
next
  case (ChooseLength v)
  with assms show ?thesis by (simp add: coherent_def)
next
  case (ChooseEmojis v)
  with assms show ?thesis by (simp add: coherent_def)
next
  case (ChooseOutputLanguage v)
  with assms show ?thesis by (simp add: coherent_def)
next
  case (PressRegenerate s)
  with assms coherent_quiet[OF assms quiet_regenerate, of e "app sys" s] show ?thesis
    by (simp add: dispatch_def)
next
  case (PressTranslate s l)
  with assms coherent_quiet[OF assms quiet_translate, of e "app sys" s l] show ?thesis
    by (simp add: dispatch_def)
next
  case (Edit s t)
  with assms show ?thesis by (simp add: coherent_def handleUpdateContent_def)
next
  case Effects
  with coherent_quiet[OF assms quiet_effects, of e] show ?thesis by (simp add: dispatch_def)
next
  case (Settle c out)
  show ?thesis
  proof (cases "take_awaited c (inflight sys)")
    case None
    with assms Settle show ?thesis by simp
  next
    case (Some rest)
    show ?thesis
    proof (cases "resume e c out (app sys)")
      case None
      with assms Settle Some show ?thesis by simp
    next
      case r: (Some r)
      from coherent_settle[OF assms Some r] Settle Some r show ?thesis
        by (simp add: dispatch_def)
    qed
  qed
qed

lemma coherent_run:
  "coherent (app sys) (inflight sys) \<Longrightarrow> coherent (app (run evs sys)) (inflight (run evs sys))"
  by (induction evs arbitrary: sys) (simp_all add: coherent_step)

lemma coherent_reachable: "coherent (app (run evs initial_system)) (inflight (run evs initial_system))"
  by (rule coherent_run) (simp add: initial_system_def coherent_initial)

lemma started_generation:
  "\<exists>x. run [(env0, TypeInput (str ''https://example.com/widget'')), (env0, PressGenerate)]
          initial_system
        = \<lparr>app = fst (handleGenerate env0
                       (initial_state\<lparr>userInput := str ''https://example.com/widget''\<rparr>)),
           inflight = [(Scraped defaultOptions OutAuto, x)]\<rparr>"
proof -
  let ?url = "str ''https://example.com/widget''"
  define s1 where "s1 = initial_state\<lparr>userInput := ?url\<rparr>"
  have t: "trim (userInput s1) \<noteq> []"
    by (simp add: s1_def trim_Nil_iff str_def is_ws_def)
  have o1: "options s1 = defaultOptions" "outputLanguage s1 = OutAuto" "\<not> isLoading s1"
    by (simp_all add: s1_def initial_state_def)
  have r1: "step env0 (TypeInput ?url) initial_system = \<lparr>app = s1, inflight = []\<rparr>"
    by (simp add: initial_system_def s1_def initial_state_def)
  obtain x where r2: "step env0 PressGenerate \<lparr>app = s1, inflight = []\<rparr>
            = \<lparr>app = fst (handleGenerate env0 s1), inflight = [(Scraped defaultOptions OutAuto, x)]\<rparr>"
    using t o1 handleGenerate_sent(1)[OF t, of env0]
    by (simp add: isGenerateDisabled_def dispatch_def)
  have "run [(env0, TypeInput ?url), (env0, PressGenerate)] initial_system
        = \<lparr>app = fst (handleGenerate env0 s1), inflight = [(Scraped defaultOptions OutAuto, x)]\<rparr>"
    by (simp only: run.simps fst_conv snd_conv r1 r2)
  then show ?thesis unfolding s1_def by blast
qed

text \<open>
  C4. A failing full generation leaves no content: in every run, when the awaited
  extraction or generation of a cycle settles with a failure, the content is absent
  afterwards. A failing regeneration or translation of a section (a rejected call,
  or a section that holds no text to translate) leaves the whole content object and
  the whole map of languages as they were, for that section and for every other,
  and the section is not pending afterwards. A request that sends its call has not
  touched the content or the languages either.
\<close>

theorem failure_keeps_content:
  "(take_awaited c (inflight (run evs initial_system)) \<noteq> None \<and> generation_fails e c out \<longrightarrow>
        generatedContent (app (step e (Settle c out) (run evs initial_system))) = None)
   \<and> (generatedContent (handleRegenerateSection_regenerated e s (Rejected err) st)
        = generatedContent st
      \<and> sectionLanguages (handleRegenerateSection_regenerated e s (Rejected err) st)
        = sectionLanguages st
      \<and> s \<notin> regeneratingSections (handleRegenerateSection_regenerated e s (Rejected err) st))
   \<and> (generatedContent (handleTranslateSection_translated e s l (Rejected err) st)
        = generatedContent st
      \<and> sectionLanguages (handleTranslateSection_translated e s l (Rejected err) st)
        = sectionLanguages st
      \<and> s \<notin> regeneratingSections (handleTranslateSection_translated e s l (Rejected err) st))
   \<and> (productData r = Some product \<and> generatedContent r = Some content
        \<and> s \<notin> regeneratingSections r
        \<and> (\<forall>t. map_of content (section_name s) \<noteq> Some (JStr t)) \<longrightarrow>
        generatedContent (fst (handleTranslateSection e r s l st)) = generatedContent st
        \<and> sectionLanguages (fst (handleTranslateSection e r s l st)) = sectionLanguages st
        \<and> s \<notin> regeneratingSections (fst (handleTranslateSection e r s l st)))
   \<and> (snd (handleRegenerateSection e r s st) \<noteq> [] \<longrightarrow>
        generatedContent (fst (handleRegenerateSection e r s st)) = generatedContent st
        \<and> sectionLanguages (fst (handleRegenerateSection e r s st)) = sectionLanguages st)
   \<and> (snd (handleTranslateSection e r s l st) \<noteq> [] \<longrightarrow>
        generatedContent (fst (handleTranslateSection e r s l st)) = generatedContent st
        \<and> sectionLanguages (fst (handleTranslateSection e r s l st)) = sectionLanguages st)"
proof -
  let ?sys = "run evs initial_system"
  have a: "generatedContent (app (step e (Settle c out) ?sys)) = None"
    if t: "take_awaited c (inflight ?sys) \<noteq> None" and f: "generation_fails e c out"
  proof -
    from t obtain rest where rest: "take_awaited c (inflight ?sys) = Some rest" by blast
    from take_awaited_split[OF rest] obtain pre x post
      where ws: "inflight ?sys = pre @ (c, x) # post" by blast
    have co: "coherent (app ?sys) (pre @ (c, x) # post)"
      using coherent_reachable[of evs] by (simp add: ws)
    from f have n: "section_of c = None" by (cases c) simp_all
    from coherent_removed(1)[OF co n] have none: "generatedContent (app ?sys) = None" by simp
    show ?thesis
    proof (cases c)
      case (Scraped opts outLang)
      with f obtain ls err' where "out = Extracted ls (Inl err')"
        by (cases out; cases "case out of Extracted ls r \<Rightarrow> r") (auto simp: isl_def)
      with Scraped rest none show ?thesis
        by (simp add: scraped_failed dispatch_def catch_fields)
    next
      case (GeneratedAll opts outLang d)
      with f obtain res where "out = Answered res"
        and "isl (snd (generateAllContent_finish (JSON_parse e) res))"
        by (cases out) auto
      with GeneratedAll rest none show ?thesis
        by (simp add: dispatch_def generated_failed_content)
    next
      case (Regenerated s)
      with f show ?thesis by simp
    next
      case (Translated s l)
      with f show ?thesis by simp
    qed
  qed
  have b: "generatedContent (fst (handleTranslateSection e r s l st)) = generatedContent st
        \<and> sectionLanguages (fst (handleTranslateSection e r s l st)) = sectionLanguages st
        \<and> s \<notin> regeneratingSections (fst (handleTranslateSection e r s l st))"
    if "productData r = Some product" "generatedContent r = Some content"
      "s \<notin> regeneratingSections r" "\<forall>t. map_of content (section_name s) \<noteq> Some (JStr t)"
    using translate_no_content(2,3,4)[OF that, of e l st] by simp
  have c: "generatedContent (fst (handleRegenerateSection e r s st)) = generatedContent st
        \<and> sectionLanguages (fst (handleRegenerateSection e r s st)) = sectionLanguages st"
    if "snd (handleRegenerateSection e r s st) \<noteq> []"
  proof -
    from that regenerate_calls[of e r s st] have "regenerate_sends s r" by auto
    then obtain product where "productData r = Some product" "s \<notin> regeneratingSections r"
      "s \<noteq> Photo" by (auto simp: regenerate_sends_def)
    from regenerate_sent(3)[OF this] show ?thesis by (simp add: regenerate_frame)
  qed
  have d: "generatedContent (fst (handleTranslateSection e r s l st)) = generatedContent st
        \<and> sectionLanguages (fst (handleTranslateSection e r s l st)) = sectionLanguages st"
    if "snd (handleTranslateSection e r s l st) \<noteq> []"
  proof -
    from that translate_calls[of e r s l st] have "translate_sends s r" by auto
    then obtain product c' t where "productData r = Some product" "generatedContent r = Some c'"
      "s \<notin> regeneratingSections r" "map_of c' (section_name s) = Some (JStr t)" "t \<noteq> []"
      by (auto simp: translate_sends_def split: option.splits json.splits)
    from translate_sent(3,4)[OF this] show ?thesis by simp
  qed
  from a b c d show ?thesis
    by (simp add: regenerated_content regenerated_fields translated_content translated_fields)
qed

theorem failure_keeps_content_witness:
  "generatedContent (app (step env0 (Settle (Scraped defaultOptions OutAuto)
        (Extracted [] (Inl (Error (str ''unreachable'')))))
        (run [(env0, TypeInput (str ''https://example.com/widget'')), (env0, PressGenerate)]
           initial_system))) = None
   \<and> generatedContent (fst (handleTranslateSection env0 ready_state Reviews Hebrew ready_state))
     = generatedContent ready_state
   \<and> Reviews \<notin> regeneratingSections (fst (handleTranslateSection env0 ready_state Reviews Hebrew ready_state))"
proof -
  obtain x where r: "run [(env0, TypeInput (str ''https://example.com/widget'')), (env0, PressGenerate)]
          initial_system
        = \<lparr>app = fst (handleGenerate env0
                       (initial_state\<lparr>userInput := str ''https://example.com/widget''\<rparr>)),
           inflight = [(Scraped defaultOptions OutAuto, x)]\<rparr>"
    using started_generation by blast
  have t: "take_awaited (Scraped defaultOptions OutAuto)
             (inflight (run [(env0, TypeInput (str ''https://example.com/widget'')),
                             (env0, PressGenerate)] initial_system)) \<noteq> None"
    unfolding r by simp
  have f: "generation_fails env0 (Scraped defaultOptions OutAuto)
             (Extracted [] (Inl (Error (str ''unreachable''))))" by simp
  have p: "productData ready_state = Some widget"
    "generatedContent ready_state = Some [(str ''header'', JStr (str ''H'')),
          (str ''description'', JStr (str ''D'')), (str ''features'', JStr ([8226] @ str '' F'')),
          (str ''photo'', JStr (str ''https://x/img.png''))]"
    "Reviews \<notin> regeneratingSections ready_state"
    "\<forall>t. map_of [(str ''header'', JStr (str ''H'')),
          (str ''description'', JStr (str ''D'')), (str ''features'', JStr ([8226] @ str '' F'')),
          (str ''photo'', JStr (str ''https://x/img.png''))] (section_name Reviews) \<noteq> Some (JStr t)"
    by (simp_all add: ready_state_def initial_state_def section_name_def section_keys_distinct)
  from failure_keeps_content[where c = "Scraped defaultOptions OutAuto"
      and evs = "[(env0, TypeInput (str ''https://example.com/widget'')), (env0, PressGenerate)]"
      and e = env0 and out = "Extracted [] (Inl (Error (str ''unreachable'')))"
      and st = ready_state and r = ready_state and s = Reviews and l = Hebrew and product = widget
      and content = "[(str ''header'', JStr (str ''H'')),
          (str ''description'', JStr (str ''D'')), (str ''features'', JStr ([8226] @ str '' F'')),
          (str ''photo'', JStr (str ''https://x/img.png''))]"] t f p
  show ?thesis by simp
qed

section \<open>Two calls on one section\<close>

lemma reset_more:
  "userInput (handleReset e st) = []"
  "options (handleReset e st) = defaultOptions"
  "outputLanguage (handleReset e st) = OutAuto"
  "lastUsedOptions (handleReset e st) = lastUsedOptions st"
  "lastUsedOutputLanguage (handleReset e st) = lastUsedOutputLanguage st"
  by (simp_all add: handleReset_def Let_def clear_fields)

lemma scraped_ok_languages:
  "sectionLanguages (fst (handleGenerate_scraped e opts (Out l) ls (Inr d) st))
   = [Header \<mapsto> l, Description \<mapsto> l, Features \<mapsto> l, Reviews \<mapsto> l]"
  "originLanguage (fst (handleGenerate_scraped e opts outLang ls (Inr d) st))
   = (if language d = Some (str ''he'') then Hebrew else English)"
  by (simp_all add: handleGenerate_scraped_def processScrapedData_def Let_def
      generateAllContent_start_def)

lemma generated_origin:
  "originLanguage (handleGenerate_generated e opts outLang product r st) = originLanguage st"
  by (cases "generateAllContent_finish (JSON_parse e) r"; cases "snd (generateAllContent_finish (JSON_parse e) r)")
    (simp_all add: handleGenerate_generated_def Let_def handleGenerate_catch_def)

lemma reset_midway_app:
  "regeneratingSections (app reset_midway) = {Header, Description, Features, Reviews}"
  "inflight reset_midway
       = [(Regenerated Description, Gateway \<lparr>model = str ''gemini-2.5-flash'',
             prompt = generatePrompt widget defaultOptions [(Description, Hebrew)],
             json_schema = False\<rparr>),
          (Translated Header English, Gateway \<lparr>model = str ''gemini-2.5-flash'',
             prompt = translate_prompt (str ''H'') English (str ''a product header''),
             json_schema = False\<rparr>),
          (Translated Description English, Gateway \<lparr>model = str ''gemini-2.5-flash'',
             prompt = translate_prompt (str ''D'') English (str ''a product description''),
             json_schema = False\<rparr>),
          (Translated Features English, Gateway \<lparr>model = str ''gemini-2.5-flash'',
             prompt = translate_prompt ([8226] @ str '' F'') English
                        (str ''a bulleted list of product features''),
             json_schema = False\<rparr>),
          (Translated Reviews English, Gateway \<lparr>model = str ''gemini-2.5-flash'',
             prompt = translate_prompt (str ''R'') English (str ''a summary of customer reviews''),
             json_schema = False\<rparr>)]"
proof -
  let ?url = "str ''https://example.com/widget''"
  let ?opts = "defaultOptions\<lparr>tone := Casual\<rparr>"
  let ?content = "[(str ''header'', JStr (str ''H'')), (str ''description'', JStr (str ''D'')),
           (str ''features'', JStr ([8226] @ str '' F'')), (str ''reviews'', JStr (str ''R'')),
           (str ''photo'', JStr (str ''https://x/img.png''))]"
  define s3 where "s3 = initial_state\<lparr>options := ?opts, outputLanguage := Out Hebrew,
                                        userInput := ?url\<rparr>"
  define s4 where "s4 = fst (handleGenerate env0 s3)"
  define s5 where "s5 = handleReset env0 s4"
  define s6 where "s6 = fst (handleGenerate_scraped env0 ?opts (Out Hebrew) [] (Inr widget) s5)"
  define s7 where "s7 = handleGenerate_generated env0 ?opts (Out Hebrew) widget
                          (Response four_sections) s6"
  have t: "trim (userInput s3) \<noteq> []"
    by (simp add: s3_def trim_Nil_iff str_def is_ws_def)
  have o3: "options s3 = ?opts" "outputLanguage s3 = Out Hebrew" "\<not> isLoading s3"
    by (simp_all add: s3_def initial_state_def)
  have r1: "step env0 (ChooseTone Casual) initial_system
            = \<lparr>app = initial_state\<lparr>options := ?opts\<rparr>, inflight = []\<rparr>"
    by (simp add: initial_system_def initial_state_def sidebarDisabled_def)
  have r2: "step env0 (ChooseOutputLanguage (Out Hebrew))
              \<lparr>app = initial_state\<lparr>options := ?opts\<rparr>, inflight = []\<rparr>
            = \<lparr>app = initial_state\<lparr>options := ?opts, outputLanguage := Out Hebrew\<rparr>,
               inflight = []\<rparr>"
    by (simp add: initial_state_def sidebarDisabled_def)
  have r3: "step env0 (TypeInput ?url)
              \<lparr>app = initial_state\<lparr>options := ?opts, outputLanguage := Out Hebrew\<rparr>, inflight = []\<rparr>
            = \<lparr>app = s3, inflight = []\<rparr>"
    by (simp add: s3_def initial_state_def)
  obtain x where r4: "step env0 PressGenerate \<lparr>app = s3, inflight = []\<rparr>
            = \<lparr>app = s4, inflight = [(Scraped ?opts (Out Hebrew), x)]\<rparr>"
    using t o3 handleGenerate_sent(1)[OF t, of env0]
    by (simp add: isGenerateDisabled_def dispatch_def s4_def)
  have u4: "userInput s4 = ?url" using t by (simp add: s4_def handleGenerate_sent s3_def)
  have r5: "step env0 PressReset \<lparr>app = s4, inflight = [(Scraped ?opts (Out Hebrew), x)]\<rparr>
            = \<lparr>app = s5, inflight = [(Scraped ?opts (Out Hebrew), x)]\<rparr>"
    using t by (simp add: isResetDisabled_def isClearDisabled_def u4 s5_def s3_def)
  obtain req where q: "snd (handleGenerate_scraped env0 ?opts (Out Hebrew) [] (Inr widget) s5)
          = [(GeneratedAll ?opts (Out Hebrew) widget, Gateway req)]"
    using scraped_ok_fields(1) by blast
  have r6: "step env0 (Settle (Scraped ?opts (Out Hebrew)) (Extracted [] (Inr widget)))
              \<lparr>app = s5, inflight = [(Scraped ?opts (Out Hebrew), x)]\<rparr>
            = \<lparr>app = s6, inflight = [(GeneratedAll ?opts (Out Hebrew) widget, Gateway req)]\<rparr>"
    using q by (simp add: dispatch_def s6_def)
  have r7: "step env0 (Settle (GeneratedAll ?opts (Out Hebrew) widget)
                         (Answered (Response four_sections)))
              \<lparr>app = s6, inflight = [(GeneratedAll ?opts (Out Hebrew) widget, Gateway req)]\<rparr>
            = \<lparr>app = s7, inflight = []\<rparr>"
    by (simp add: dispatch_def s7_def)
  have ok: "snd (generateAllContent_finish (JSON_parse env0) (Response four_sections))
   = Inr [(str ''header'', JStr (str ''H'')), (str ''description'', JStr (str ''D'')),
          (str ''features'', JStr ([8226] @ str '' F'')), (str ''reviews'', JStr (str ''R''))]"
    using finish_four by (simp add: env0_def)
  have p6: "productData s6 = Some widget" "regeneratingSections s6 = {}"
    "options s6 = defaultOptions" "outputLanguage s6 = OutAuto"
    "sectionLanguages s6 = [Header \<mapsto> Hebrew, Description \<mapsto> Hebrew, Features \<mapsto> Hebrew,
                            Reviews \<mapsto> Hebrew]"
    "originLanguage s6 = English"
    using t by (simp_all add: s6_def scraped_ok_fields scraped_ok_languages s5_def reset_fields
        reset_more s4_def handleGenerate_sent s3_def initial_state_def widget_def str_def)
  have f7: "productData s7 = Some widget" "regeneratingSections s7 = {}" "isLoading s7 = False"
    "lastUsedOptions s7 = Some ?opts" "options s7 = defaultOptions"
    "lastUsedOutputLanguage s7 = Some (Out Hebrew)" "outputLanguage s7 = OutAuto"
    "sectionLanguages s7 = [Header \<mapsto> Hebrew, Description \<mapsto> Hebrew, Features \<mapsto> Hebrew,
                            Reviews \<mapsto> Hebrew]"
    "originLanguage s7 = English"
    "generatedContent s7 = Some ?content"
    using generated_success[OF ok, of ?opts "Out Hebrew" widget s6]
      generated_success_more[OF ok, of ?opts "Out Hebrew" widget s6] p6
    by (simp_all add: s7_def section_keys_distinct widget_def generated_origin)
  define s8 where "s8 = fst (options_effect env0 s7 s7)"
  have d: "tone (options s7) \<noteq> tone ?opts \<or> length_opt (options s7) \<noteq> length_opt ?opts
           \<or> emojis (options s7) \<noteq> emojis ?opts"
    by (simp add: f7 defaultOptions_def)
  have nl: "\<not> isLoading s7" by (simp add: f7)
  have fires: "options_effect env0 s7 s7
        = handleRegenerateSection env0 s7 Description (s7\<lparr>lastUsedOptions := Some (options s7)\<rparr>)"
    by (rule options_effect_fires[OF f7(10) f7(4) nl f7(2) d])
  have pr: "productData s7 = Some widget" "Description \<notin> regeneratingSections s7"
    "Description \<noteq> Photo"
    by (simp_all add: f7)
  have oc: "snd (options_effect env0 s7 s7)
        = [(Regenerated Description, Gateway \<lparr>model = str ''gemini-2.5-flash'',
             prompt = generatePrompt widget defaultOptions [(Description, Hebrew)],
             json_schema = False\<rparr>)]"
    using regenerate_sent(1)[OF pr, of env0 "s7\<lparr>lastUsedOptions := Some (options s7)\<rparr>"]
    by (simp add: fires language_for_def f7)
  have r8: "regeneratingSections s8 = {Description}"
    using regenerate_sent(2)[OF pr, of env0 "s7\<lparr>lastUsedOptions := Some (options s7)\<rparr>"]
    by (simp add: s8_def fires f7)
  have ne: "outputLanguage s7 \<noteq> Out Hebrew" by (simp add: f7)
  note le = language_effect_fires[OF f7(10) f7(4) f7(6) nl f7(2) ne, of env0 s8]
  have m: "map_of ?content (section_name Header) = Some (JStr (str ''H''))"
    "map_of ?content (section_name Description) = Some (JStr (str ''D''))"
    "map_of ?content (section_name Features) = Some (JStr ([8226] @ str '' F''))"
    "map_of ?content (section_name Reviews) = Some (JStr (str ''R''))"
    by (simp_all add: section_name_def section_keys_distinct)
  have n: "str ''H'' \<noteq> []" "str ''D'' \<noteq> []" "[8226] @ str '' F'' \<noteq> []" "str ''R'' \<noteq> []"
    by (simp_all add: str_def)
  have free: "Header \<notin> regeneratingSections s7" "Description \<notin> regeneratingSections s7"
    "Features \<notin> regeneratingSections s7" "Reviews \<notin> regeneratingSections s7"
    by (simp_all add: f7)
  note th = translate_sent(1,2)[OF f7(1) f7(10) free(1) m(1) n(1)]
  note td = translate_sent(1,2)[OF f7(1) f7(10) free(2) m(2) n(2)]
  note tf = translate_sent(1,2)[OF f7(1) f7(10) free(3) m(3) n(3)]
  note tr = translate_sent(1,2)[OF f7(1) f7(10) free(4) m(4) n(4)]
  have ctx: "sectionContext_of Header = str ''a product header''"
    "sectionContext_of Description = str ''a product description''"
    "sectionContext_of Features = str ''a bulleted list of product features''"
    "sectionContext_of Reviews = str ''a summary of customer reviews''"
    by (simp_all add: sectionContext_of_def sectionContextMap_def)
  have lc: "snd (language_effect env0 s7 s8)
        = [(Translated Header English, Gateway \<lparr>model = str ''gemini-2.5-flash'',
             prompt = translate_prompt (str ''H'') English (str ''a product header''),
             json_schema = False\<rparr>),
          (Translated Description English, Gateway \<lparr>model = str ''gemini-2.5-flash'',
             prompt = translate_prompt (str ''D'') English (str ''a product description''),
             json_schema = False\<rparr>),
          (Translated Features English, Gateway \<lparr>model = str ''gemini-2.5-flash'',
             prompt = translate_prompt ([8226] @ str '' F'') English
                        (str ''a bulleted list of product features''),
             json_schema = False\<rparr>),
          (Translated Reviews English, Gateway \<lparr>model = str ''gemini-2.5-flash'',
             prompt = translate_prompt (str ''R'') English (str ''a summary of customer reviews''),
             json_schema = False\<rparr>)]"
    by (simp add: le f7 truthy_def n section_keys_distinct case_prod_beta th td tf tr ctx)
  have lr: "regeneratingSections (fst (language_effect env0 s7 s8))
        = {Header, Description, Features, Reviews}"
    by (simp add: le f7 truthy_def n section_keys_distinct case_prod_beta th td tf tr r8 addLog_fields) auto
  have r8s: "step env0 Effects \<lparr>app = s7, inflight = []\<rparr>
            = \<lparr>app = fst (effects env0 s7), inflight = snd (effects env0 s7)\<rparr>"
    by (simp add: dispatch_def)
  have rm: "reset_midway = \<lparr>app = fst (effects env0 s7), inflight = snd (effects env0 s7)\<rparr>"
    by (simp only: reset_midway_def run.simps fst_conv snd_conv r1 r2 r3 r4 r5 r6 r7 r8s)
  show "regeneratingSections (app reset_midway) = {Header, Description, Features, Reviews}"
    unfolding rm using lr by (simp add: effects_split s8_def)
  show "inflight reset_midway
       = [(Regenerated Description, Gateway \<lparr>model = str ''gemini-2.5-flash'',
             prompt = generatePrompt widget defaultOptions [(Description, Hebrew)],
             json_schema = False\<rparr>),
          (Translated Header English, Gateway \<lparr>model = str ''gemini-2.5-flash'',
             prompt = translate_prompt (str ''H'') English (str ''a product header''),
             json_schema = False\<rparr>),
          (Translated Description English, Gateway \<lparr>model = str ''gemini-2.5-flash'',
             prompt = translate_prompt (str ''D'') English (str ''a product description''),
             json_schema = False\<rparr>),
          (Translated Features English, Gateway \<lparr>model = str ''gemini-2.5-flash'',
             prompt = translate_prompt ([8226] @ str '' F'') English
                        (str ''a bulleted list of product features''),
             json_schema = False\<rparr>),
          (Translated Reviews English, Gateway \<lparr>model = str ''gemini-2.5-flash'',
             prompt = translate_prompt (str ''R'') English (str ''a summary of customer reviews''),
             json_schema = False\<rparr>)]"
    unfolding rm using lc oc by (simp add: effects_split s8_def)
qed

text \<open>
  C1. The claim fails in the run \<open>reset_midway\<close>. Its last render has content and product
  data, nothing loading and no section pending; the options differ from those the
  generation used and the output language from the one it used, Reset having
  changed both while the generation was awaited. The options effect of that render
  calls \<^verbatim>\<open>handleRegenerateSection\<close> for the description, and the language effect of the
  same render calls \<^verbatim>\<open>handleTranslateSection\<close> for it: the pending set that this second
  closure tests is the empty one of the render. Two calls of the gateway are awaited
  for the description at once, a regeneration and a translation.
\<close>

theorem description_called_twice:
  "calls_on Description (inflight reset_midway)
   = [(Regenerated Description, Gateway \<lparr>model = str ''gemini-2.5-flash'',
         prompt = generatePrompt widget defaultOptions [(Description, Hebrew)],
         json_schema = False\<rparr>),
      (Translated Description English, Gateway \<lparr>model = str ''gemini-2.5-flash'',
         prompt = translate_prompt (str ''D'') English (str ''a product description''),
         json_schema = False\<rparr>)]
   \<and> length (gateway_calls (calls_on Description (inflight reset_midway))) = 2
   \<and> busy_sections (inflight reset_midway) = [Description, Header, Description, Features, Reviews]
   \<and> regeneratingSections (app reset_midway) = {Header, Description, Features, Reviews}"
  by (simp add: reset_midway_app calls_on_def gateway_calls_def)

end
